theory Spec2Isabelle
  imports Main
begin

section \<open>Values of the command line and of the configuration\<close>

text \<open>
  The parsed arguments are typed \<^verbatim>\<open>any\<close> in \<^verbatim>\<open>main.ts\<close>, so each field is a
  JavaScript value. \<open>truthy\<close> is the test an \<^verbatim>\<open>if (x)\<close> makes, equality with a
  \<open>JStr\<close> literal is \<^verbatim>\<open>===\<close> against a string literal, and \<open>to_string\<close> is the
  conversion of a template literal \<^verbatim>\<open>`${x}`\<close>. Numbers are the integers (a port is
  one), printed in decimal. That is the text JavaScript gives for the safe integers,
  those of magnitude below \<open>2^53\<close>: beyond them not every integer is a JavaScript
  number, the conversion rounds the digits, and from \<open>10^21\<close> on it uses the exponent
  form. \<open>template_exact\<close> holds of the values whose text \<open>to_string\<close> gives exactly.
\<close>

datatype jsval = JUndefined | JNull | JBool bool | JNum int | JStr string

fun truthy :: "jsval \<Rightarrow> bool" where
  "truthy JUndefined = False"
| "truthy JNull = False"
| "truthy (JBool b) = b"
| "truthy (JNum n) = (n \<noteq> 0)"
| "truthy (JStr s) = (s \<noteq> [])"

definition digit_char :: "nat \<Rightarrow> char" where
  "digit_char d = ''0123456789'' ! d"

fun digits :: "nat \<Rightarrow> string" where
  "digits n = (if n < 10 then [digit_char n] else digits (n div 10) @ [digit_char (n mod 10)])"

declare digits.simps [simp del]

definition show_int :: "int \<Rightarrow> string" where
  "show_int i = (if i < 0 then CHR ''-'' # digits (nat (- i)) else digits (nat i))"

fun to_string :: "jsval \<Rightarrow> string" where
  "to_string JUndefined = ''undefined''"
| "to_string JNull = ''null''"
| "to_string (JBool b) = (if b then ''true'' else ''false'')"
| "to_string (JNum n) = show_int n"
| "to_string (JStr s) = s"

fun template_exact :: "jsval \<Rightarrow> bool" where
  "template_exact (JNum n) = (\<bar>n\<bar> < 2 ^ 53)"
| "template_exact v = True"

record args =
  arg_mode :: jsval
  arg_watch :: jsval
  arg_serve :: jsval
  arg_port :: jsval

text \<open>
  The fields of \<^verbatim>\<open>webpack.Configuration\<close> that \<^verbatim>\<open>main.ts\<close> reads. \<open>entry\<close> is the
  object form of webpack's entry, the one \<open>memoryWatch\<close> iterates by name: the names in
  the order of \<^verbatim>\<open>Object.keys\<close>, each with a single module (a string) or with its own
  array of modules (no array is shared by two names). \<open>plugins\<close>, \<open>output_cfg\<close> (the
  field \<^verbatim>\<open>output\<close>), its \<open>path\<close> and \<open>watchOptions\<close> may be undefined.
\<close>

datatype plugin = HotModuleReplacementPlugin | NoEmitOnErrorsPlugin | Plugin string

datatype watch_options = WatchOptions string

datatype entry_value = Module string | Modules "string list"

type_synonym entry = "(string \<times> entry_value) list"

record output_options =
  path :: "string option"

record config =
  entry :: entry
  plugins :: "plugin list option"
  output_cfg :: "output_options option"
  watchOptions :: "watch_options option"

type_synonym rc = "(string \<times> string) list"

text \<open>
  The three configuration factories are imported from modules that are not part of
  \<^verbatim>\<open>main.ts\<close>; they are parameters of the model.
\<close>

record factories =
  devConfigFactory :: "rc \<Rightarrow> config"
  testConfigFactory :: "rc \<Rightarrow> config"
  distConfigFactory :: "rc \<Rightarrow> config"

section \<open>Collaborators, effects and promises\<close>

datatype error = Error string | TypeError

datatype stats = Stats string

datatype stats_json = ToJson stats

datatype compiler = Compiler config

record dev_options =
  logLevel :: string
  noInfo :: bool
  publicPath :: string
  dev_watchOptions :: "watch_options option"

record hot_options =
  heartbeat :: int

datatype middleware =
    Static string
  | WebpackMiddleware compiler dev_options
  | HotMiddleware compiler hot_options

datatype factory = DevConfigFactory | TestConfigFactory | DistConfigFactory

text \<open>Every call that leaves \<^verbatim>\<open>main.ts\<close>, in the order the calls are made.\<close>

datatype effect =
    ConsoleLogSilenced
  | ConfigurationGet
  | FactoryCall factory rc
  | ConsoleWarn string
  | Webpack config
  | FixMultipleWatchTrigger compiler
  | OraStart string
  | SpinnerStart
  | SpinnerStop
  | LogUpdate string
  | CompilerRun compiler
  | CompilerWatch compiler "watch_options option"
  | Logger stats_json config "string option"
  | Express
  | AppUse "middleware list"
  | AppListen jsval

datatype promise = Pending | Resolved | Rejected error

text \<open>
  Each function creates at most one promise in a run, so a promise is named after the
  place that creates it. \<open>ServePromise\<close> is the end of the \<^verbatim>\<open>.then\<close> chain in \<open>serve\<close>.
\<close>

datatype pid = BuildPromise | FileWatchPromise | MemoryWatchPromise | ListenPromise | ServePromise

text \<open>The handlers given to \<^verbatim>\<open>compiler.plugin\<close>, with the values they close over.\<close>

datatype invalid_hook = RestartSpinner

datatype done_hook = StopSpinner | LogListening config args

text \<open>
  What the second \<^verbatim>\<open>.then\<close> of \<open>serve\<close> waits for: the promise the first callback
  returned, and afterwards the promise of \<^verbatim>\<open>app.listen\<close>.
\<close>

datatype pending_then = NoThen | AwaitFirst pid args | AwaitListen

record world =
  effects :: "effect list"
  promises :: "pid \<Rightarrow> promise option"
  run_callback :: "config option"
  watch_callback :: "(config \<times> args) option"
  invalid_hooks :: "invalid_hook list"
  done_hooks :: "done_hook list"
  listen_callback :: bool
  serve_then :: pending_then

definition init_world :: world where
  "init_world = \<lparr>effects = [], promises = (\<lambda>p. None), run_callback = None,
     watch_callback = None, invalid_hooks = [], done_hooks = [],
     listen_callback = False, serve_then = NoThen\<rparr>"

definition emit :: "effect \<Rightarrow> world \<Rightarrow> world" where
  "emit e w = w\<lparr>effects := effects w @ [e]\<rparr>"

definition new_promise :: "pid \<Rightarrow> promise \<Rightarrow> world \<Rightarrow> world" where
  "new_promise p s w = w\<lparr>promises := (promises w)(p \<mapsto> s)\<rparr>"

text \<open>Settling a promise that is already settled changes nothing.\<close>

definition resolve :: "pid \<Rightarrow> world \<Rightarrow> world" where
  "resolve p w =
     (if promises w p = Some Pending then w\<lparr>promises := (promises w)(p \<mapsto> Resolved)\<rparr> else w)"

definition reject :: "pid \<Rightarrow> error \<Rightarrow> world \<Rightarrow> world" where
  "reject p e w =
     (if promises w p = Some Pending then w\<lparr>promises := (promises w)(p \<mapsto> Rejected e)\<rparr> else w)"

definition logger :: "stats_json \<Rightarrow> config \<Rightarrow> string option \<Rightarrow> world \<Rightarrow> world" where
  "logger json config message w = emit (Logger json config message) w"

section \<open>The functions of main.ts\<close>

definition createCompiler :: "config \<Rightarrow> world \<Rightarrow> compiler \<times> world" where
  "createCompiler config w =
     (let compiler = Compiler config;
          w = emit (Webpack config) w;
          w = emit (FixMultipleWatchTrigger compiler) w
      in (compiler, w))"

definition createWatchCompiler :: "config \<Rightarrow> world \<Rightarrow> compiler \<times> world" where
  "createWatchCompiler config w =
     (let (compiler, w) = createCompiler config w;
          w = emit (OraStart ''building'') w;
          w = w\<lparr>invalid_hooks := invalid_hooks w @ [RestartSpinner]\<rparr>;
          w = w\<lparr>done_hooks := done_hooks w @ [StopSpinner]\<rparr>
      in (compiler, w))"

definition build :: "config \<Rightarrow> world \<Rightarrow> pid \<times> world" where
  "build config w =
     (let (compiler, w) = createCompiler config w;
          w = emit (OraStart ''building'') w;
          w = new_promise BuildPromise Pending w;
          w = emit (CompilerRun compiler) w;
          w = w\<lparr>run_callback := Some config\<rparr>
      in (BuildPromise, w))"

definition build_callback :: "config \<Rightarrow> error option \<Rightarrow> stats option \<Rightarrow> world \<Rightarrow> world" where
  "build_callback config err stats w =
     (let w = emit SpinnerStop w;
          w = (case err of Some e \<Rightarrow> reject BuildPromise e w | None \<Rightarrow> w);
          w = (case stats of Some s \<Rightarrow> logger (ToJson s) config None w | None \<Rightarrow> w)
      in resolve BuildPromise w)"

definition fileWatch :: "config \<Rightarrow> args \<Rightarrow> world \<Rightarrow> pid \<times> world" where
  "fileWatch config args w =
     (let (compiler, w) = createWatchCompiler config w;
          w = new_promise FileWatchPromise Pending w;
          w = emit (CompilerWatch compiler (watchOptions config)) w;
          w = w\<lparr>watch_callback := Some (config, args)\<rparr>
      in (FileWatchPromise, w))"

definition fileWatch_callback ::
  "config \<Rightarrow> args \<Rightarrow> error option \<Rightarrow> stats option \<Rightarrow> world \<Rightarrow> world" where
  "fileWatch_callback config args err stats w =
     (let w = (case err of Some e \<Rightarrow> reject FileWatchPromise e w | None \<Rightarrow> w);
          w = (case stats of
                 Some s \<Rightarrow>
                   (let runningMessage =
                          (if truthy (arg_serve args)
                           then ''Listening on port '' @ to_string (arg_port args)
                           else ''watching...'')
                    in logger (ToJson s) config (Some runningMessage) w)
               | None \<Rightarrow> w)
      in resolve FileWatchPromise w)"

text \<open>
  The loop \<^verbatim>\<open>Object.keys(entry).forEach(name => entry[name].unshift(client))\<close>. A
  string has no \<^verbatim>\<open>unshift\<close>: the call throws a TypeError there, which ends the loop
  with the earlier entries already changed.
\<close>

fun unshift_entries :: "string \<Rightarrow> entry \<Rightarrow> error option \<times> entry" where
  "unshift_entries client [] = (None, [])"
| "unshift_entries client ((name, Modules ms) # es) =
     (case unshift_entries client es of
        (thrown, es') \<Rightarrow> (thrown, (name, Modules (client # ms)) # es'))"
| "unshift_entries client ((name, Module m) # es) = (Some TypeError, (name, Module m) # es)"

text \<open>
  \<open>memoryWatch\<close> returns the promise, or the exception it throws (\<^verbatim>\<open>plugins.push\<close> on
  an undefined plugin list, \<^verbatim>\<open>unshift\<close> on a string), together with the configuration
  object as the call leaves it. \<^verbatim>\<open>timeout / 2\<close> is exact, the timeout being even.
\<close>

definition memoryWatch :: "config \<Rightarrow> args \<Rightarrow> world \<Rightarrow> (error + pid) \<times> config \<times> world" where
  "memoryWatch config args w =
     (let timeout = 20 * 1000 in
      case plugins config of
        None \<Rightarrow> (Inl TypeError, config, w)
      | Some ps \<Rightarrow>
          (let config = config\<lparr>plugins :=
                 Some (ps @ [HotModuleReplacementPlugin, NoEmitOnErrorsPlugin])\<rparr>;
               (thrown, entry') =
                 unshift_entries
                   (''webpack-hot-middleware/client?timeout='' @ show_int timeout @ ''&reload=true'')
                   (entry config);
               config = config\<lparr>entry := entry'\<rparr>
           in case thrown of
                Some e \<Rightarrow> (Inl e, config, w)
              | None \<Rightarrow>
                  (let watchOptions = watchOptions config;
                       (compiler, w) = createWatchCompiler config w;
                       w = w\<lparr>done_hooks := done_hooks w @ [LogListening config args]\<rparr>;
                       w = emit (AppUse
                             [WebpackMiddleware compiler
                                \<lparr>logLevel = ''silent'', noInfo = True, publicPath = ''/'',
                                 dev_watchOptions = watchOptions\<rparr>,
                              HotMiddleware compiler \<lparr>heartbeat = timeout div 2\<rparr>]) w;
                       w = new_promise MemoryWatchPromise Resolved w
                   in (Inr MemoryWatchPromise, config, w))))"

definition memoryWatch_done :: "config \<Rightarrow> args \<Rightarrow> stats \<Rightarrow> world \<Rightarrow> world" where
  "memoryWatch_done config args stats w =
     logger (ToJson stats) config
       (Some (''Listening on port '' @ to_string (arg_port args) @ ''...'')) w"

definition createWatchCompiler_invalid :: "world \<Rightarrow> world" where
  "createWatchCompiler_invalid w = emit SpinnerStart (emit (LogUpdate []) w)"

definition createWatchCompiler_done :: "world \<Rightarrow> world" where
  "createWatchCompiler_done w = emit SpinnerStop w"

text \<open>
  \<open>serve\<close>, piece by piece: the callback of the first \<^verbatim>\<open>.then\<close> (it returns a promise,
  or nothing, or throws), the callback of the second one, and the callback given to
  \<^verbatim>\<open>app.listen\<close>.
\<close>

definition serve_first_then ::
  "config \<Rightarrow> args \<Rightarrow> world \<Rightarrow> (error + pid option) \<times> config \<times> world" where
  "serve_first_then config args w =
     (if arg_watch args = JStr ''memory'' \<and> arg_mode args = JStr ''dev'' then
        (case memoryWatch config args w of
           (Inl e, config, w) \<Rightarrow> (Inl e, config, w)
         | (Inr p, config, w) \<Rightarrow> (Inr (Some p), config, w))
      else if truthy (arg_watch args) then
        (let w = (if arg_watch args = JStr ''memory''
                  then emit (ConsoleWarn
                         ''Memory watch requires `--mode=dev`. Using file watch instead...'') w
                  else w);
             (p, w) = fileWatch config args w
         in (Inr (Some p), config, w))
      else (Inr None, config, w))"

definition serve_second_then :: "args \<Rightarrow> world \<Rightarrow> world" where
  "serve_second_then args w =
     (let w = new_promise ListenPromise Pending w;
          w = emit (AppListen (arg_port args)) w;
          w = w\<lparr>listen_callback := True\<rparr>
      in w\<lparr>serve_then := AwaitListen\<rparr>)"

definition serve_listen_callback :: "error option \<Rightarrow> world \<Rightarrow> world" where
  "serve_listen_callback error w =
     (case error of Some e \<Rightarrow> reject ListenPromise e w | None \<Rightarrow> resolve ListenPromise w)"

text \<open>
  The reactions of the chain, run when the current callback has returned: the second
  \<^verbatim>\<open>.then\<close> callback runs once the promise before it is fulfilled, a rejection passes
  down the chain, and the last promise of the chain follows the promise of
  \<^verbatim>\<open>app.listen\<close>.
\<close>

definition flush :: "world \<Rightarrow> world" where
  "flush w =
     (case serve_then w of
        NoThen \<Rightarrow> w
      | AwaitFirst p args \<Rightarrow>
          (case promises w p of
             Some Resolved \<Rightarrow> serve_second_then args w
           | Some (Rejected e) \<Rightarrow> reject ServePromise e (w\<lparr>serve_then := NoThen\<rparr>)
           | _ \<Rightarrow> w)
      | AwaitListen \<Rightarrow>
          (case promises w ListenPromise of
             Some Resolved \<Rightarrow> resolve ServePromise (w\<lparr>serve_then := NoThen\<rparr>)
           | Some (Rejected e) \<Rightarrow> reject ServePromise e (w\<lparr>serve_then := NoThen\<rparr>)
           | _ \<Rightarrow> w))"

text \<open>
  The constant \<^verbatim>\<open>outputDir\<close> of \<open>serve\<close>:
  \<^verbatim>\<open>(config.output && config.output.path) || process.cwd()\<close>. An undefined output, an
  undefined path and the empty path are falsy and give the working directory \<open>cwd\<close>.
\<close>

definition outputDir :: "string \<Rightarrow> config \<Rightarrow> string" where
  "outputDir cwd config =
     (case output_cfg config of
        None \<Rightarrow> cwd
      | Some out \<Rightarrow>
          (case path out of
             None \<Rightarrow> cwd
           | Some dir \<Rightarrow> if dir = [] then cwd else dir))"

definition serve :: "string \<Rightarrow> config \<Rightarrow> args \<Rightarrow> world \<Rightarrow> pid \<times> config \<times> world" where
  "serve cwd config args w =
     (let w = emit Express w;
          w = (if arg_watch args \<noteq> JStr ''memory''
               then emit (AppUse [Static (outputDir cwd config)]) w
               else w);
          w = new_promise ServePromise Pending w;
          (first, config, w) = serve_first_then config args w
      in (ServePromise, config,
          (case first of
             Inl e \<Rightarrow> reject ServePromise e w
           | Inr None \<Rightarrow> serve_second_then args w
           | Inr (Some p) \<Rightarrow> flush (w\<lparr>serve_then := AwaitFirst p args\<rparr>))))"

text \<open>
  \<^verbatim>\<open>command.run\<close>. \<open>helper\<close> is what \<^verbatim>\<open>helper.configuration.get()\<close> returns (an
  object, or nothing), \<open>cwd\<close> what \<^verbatim>\<open>process.cwd()\<close> returns. The result is the
  promise returned, the configuration object as the call leaves it, and the world.
\<close>

definition run ::
  "factories \<Rightarrow> string \<Rightarrow> rc option \<Rightarrow> args \<Rightarrow> world \<Rightarrow> pid \<times> config \<times> world" where
  "run fs cwd helper args w =
     (let w = emit ConsoleLogSilenced w;
          w = emit ConfigurationGet w;
          rc = (case helper of Some r \<Rightarrow> r | None \<Rightarrow> []);
          (config, w) =
            (if arg_mode args = JStr ''dev'' then
               (devConfigFactory fs rc, emit (FactoryCall DevConfigFactory rc) w)
             else if arg_mode args = JStr ''test'' then
               (testConfigFactory fs rc, emit (FactoryCall TestConfigFactory rc) w)
             else
               (distConfigFactory fs rc, emit (FactoryCall DistConfigFactory rc) w))
      in if truthy (arg_serve args) then serve cwd config args w
         else if truthy (arg_watch args) then
           (let w = (if arg_watch args = JStr ''memory''
                     then emit (ConsoleWarn
                            ''Memory watch requires the dev server. Using file watch instead...'') w
                     else w);
                (p, w) = fileWatch config args w
            in (p, config, w))
         else (let (p, w) = build config w in (p, config, w)))"

section \<open>Callbacks from the compiler and from the server\<close>

text \<open>
  After \<open>run\<close> has returned, the program only runs when a collaborator calls one of the
  callbacks it was given. An event is one such call with its arguments; it reaches the
  callbacks registered at that moment, the hooks in the order of their registration,
  and is followed by the reactions of the promise chain.
\<close>

datatype event =
    RunCallback "error option" "stats option"
  | WatchCallback "error option" "stats option"
  | Invalid
  | Done stats
  | ListenCallback "error option"

fun call_invalid :: "invalid_hook \<Rightarrow> world \<Rightarrow> world" where
  "call_invalid RestartSpinner w = createWatchCompiler_invalid w"

fun call_done :: "stats \<Rightarrow> done_hook \<Rightarrow> world \<Rightarrow> world" where
  "call_done stats StopSpinner w = createWatchCompiler_done w"
| "call_done stats (LogListening config args) w = memoryWatch_done config args stats w"

fun deliver :: "event \<Rightarrow> world \<Rightarrow> world" where
  "deliver (RunCallback err stats) w =
     flush (case run_callback w of
              Some config \<Rightarrow> build_callback config err stats w
            | None \<Rightarrow> w)"
| "deliver (WatchCallback err stats) w =
     flush (case watch_callback w of
              Some (config, args) \<Rightarrow> fileWatch_callback config args err stats w
            | None \<Rightarrow> w)"
| "deliver Invalid w = flush (fold call_invalid (invalid_hooks w) w)"
| "deliver (Done stats) w = flush (fold (call_done stats) (done_hooks w) w)"
| "deliver (ListenCallback error) w =
     flush (if listen_callback w then serve_listen_callback error w else w)"

definition deliver_all :: "event list \<Rightarrow> world \<Rightarrow> world" where
  "deliver_all events w = fold deliver events w"

text \<open>
  A world in which calls have been made but no promise exists and no callback is
  registered: the world in which \<open>run\<close> calls \<open>serve\<close>, \<open>fileWatch\<close> or \<open>build\<close>.
\<close>

definition started :: "effect list \<Rightarrow> world" where
  "started es = init_world\<lparr>effects := es\<rparr>"

text \<open>The calls a callback can make: the spinner, the logger, \<^verbatim>\<open>app.listen\<close>.\<close>

fun callback_effect :: "effect \<Rightarrow> bool" where
  "callback_effect SpinnerStart = True"
| "callback_effect SpinnerStop = True"
| "callback_effect (LogUpdate s) = True"
| "callback_effect (Logger json config message) = True"
| "callback_effect (AppListen port) = True"
| "callback_effect e = False"

text \<open>The calls of the logger, of \<^verbatim>\<open>console.warn\<close> and of the factories, in order.\<close>

fun logger_calls :: "effect list \<Rightarrow> (stats_json \<times> config \<times> string option) list" where
  "logger_calls [] = []"
| "logger_calls (Logger json config message # es) = (json, config, message) # logger_calls es"
| "logger_calls (e # es) = logger_calls es"

fun warnings :: "effect list \<Rightarrow> string list" where
  "warnings [] = []"
| "warnings (ConsoleWarn message # es) = message # warnings es"
| "warnings (e # es) = warnings es"

fun factory_calls :: "effect list \<Rightarrow> (factory \<times> rc) list" where
  "factory_calls [] = []"
| "factory_calls (FactoryCall f rc # es) = (f, rc) # factory_calls es"
| "factory_calls (e # es) = factory_calls es"

fun app_uses :: "effect list \<Rightarrow> middleware list" where
  "app_uses [] = []"
| "app_uses (AppUse ms # es) = ms @ app_uses es"
| "app_uses (e # es) = app_uses es"

fun express_calls :: "effect list \<Rightarrow> nat" where
  "express_calls [] = 0"
| "express_calls (Express # es) = Suc (express_calls es)"
| "express_calls (e # es) = express_calls es"

fun run_calls :: "effect list \<Rightarrow> compiler list" where
  "run_calls [] = []"
| "run_calls (CompilerRun compiler # es) = compiler # run_calls es"
| "run_calls (e # es) = run_calls es"

fun watch_calls :: "effect list \<Rightarrow> (compiler \<times> watch_options option) list" where
  "watch_calls [] = []"
| "watch_calls (CompilerWatch compiler opts # es) = (compiler, opts) # watch_calls es"
| "watch_calls (e # es) = watch_calls es"

text \<open>
  The state of the chain of \<open>serve\<close> as long as the callback of \<^verbatim>\<open>app.listen\<close> has not
  been called: the callback is registered exactly when the chain waits for it, and the
  promises then waiting are pending.
\<close>

definition before_listening :: "world \<Rightarrow> bool" where
  "before_listening w =
     (case serve_then w of
        NoThen \<Rightarrow> \<not> listen_callback w
      | AwaitFirst p args \<Rightarrow>
          \<not> listen_callback w \<and> promises w ServePromise = Some Pending
      | AwaitListen \<Rightarrow>
          listen_callback w \<and> promises w ListenPromise = Some Pending
          \<and> promises w ServePromise = Some Pending)"

section \<open>A sample project\<close>

text \<open>
  A configuration with one entry point, one plugin and an output directory, as the
  factories of a project would return it, for the concrete runs below.
\<close>

definition example_config :: config where
  "example_config =
     \<lparr>entry = [(''main'', Modules [''a.js''])], plugins = Some [Plugin ''existing''],
      output_cfg = Some \<lparr>path = Some ''/project/output''\<rparr>, watchOptions = None\<rparr>"

definition example_hot_config :: config where
  "example_hot_config =
     \<lparr>entry = [(''main'',
          Modules [''webpack-hot-middleware/client?timeout=20000&reload=true'', ''a.js''])],
      plugins = Some [Plugin ''existing'', HotModuleReplacementPlugin, NoEmitOnErrorsPlugin],
      output_cfg = Some \<lparr>path = Some ''/project/output''\<rparr>, watchOptions = None\<rparr>"

definition example_args :: args where
  "example_args =
     \<lparr>arg_mode = JStr ''dev'', arg_watch = JStr ''memory'', arg_serve = JBool True,
      arg_port = JNum 9999\<rparr>"

definition example_factories :: factories where
  "example_factories =
     \<lparr>devConfigFactory = (\<lambda>rc. example_config), testConfigFactory = (\<lambda>rc. example_config),
      distConfigFactory = (\<lambda>rc. example_config)\<rparr>"

section \<open>What a callback can and cannot do\<close>

lemma logger_calls_append: "logger_calls (xs @ ys) = logger_calls xs @ logger_calls ys"
  by (induction xs rule: logger_calls.induct) simp_all

lemma warnings_append: "warnings (xs @ ys) = warnings xs @ warnings ys"
  by (induction xs rule: warnings.induct) simp_all

lemma factory_calls_append: "factory_calls (xs @ ys) = factory_calls xs @ factory_calls ys"
  by (induction xs rule: factory_calls.induct) simp_all

lemma app_uses_append: "app_uses (xs @ ys) = app_uses xs @ app_uses ys"
  by (induction xs rule: app_uses.induct) simp_all

lemma callback_effects_silent:
  "list_all callback_effect xs \<Longrightarrow> warnings xs = [] \<and> factory_calls xs = [] \<and> app_uses xs = []"
proof (induction xs)
  case Nil
  then show ?case by simp
next
  case (Cons x xs)
  then show ?case by (cases x) simp_all
qed

lemma effects_emit [simp]: "effects (emit e w) = effects w @ [e]"
  by (simp add: emit_def)

lemma effects_resolve [simp]: "effects (resolve p w) = effects w"
  by (simp add: resolve_def)

lemma effects_reject [simp]: "effects (reject p e w) = effects w"
  by (simp add: reject_def)

lemma effects_new_promise [simp]: "effects (new_promise p s w) = effects w"
  by (simp add: new_promise_def)

lemma effects_logger [simp]: "effects (logger j c m w) = effects w @ [Logger j c m]"
  by (simp add: logger_def)

lemma flush_effects:
  "\<exists>xs. effects (flush w) = effects w @ xs \<and> list_all callback_effect xs"
  by (auto simp: flush_def serve_second_then_def split: pending_then.splits option.splits promise.splits)

lemma build_callback_effects:
  "\<exists>xs. effects (build_callback config err stats w) = effects w @ xs \<and> list_all callback_effect xs"
  by (auto simp: build_callback_def Let_def split: option.splits)

lemma fileWatch_callback_effects:
  "\<exists>xs. effects (fileWatch_callback config args err stats w) = effects w @ xs \<and> list_all callback_effect xs"
  by (auto simp: fileWatch_callback_def Let_def split: option.splits)

lemma fold_call_invalid_effects:
  "\<exists>xs. effects (fold call_invalid hs w) = effects w @ xs \<and> list_all callback_effect xs"
proof (induction hs arbitrary: w)
  case Nil
  then show ?case by simp
next
  case (Cons h hs)
  obtain xs where xs: "effects (fold call_invalid hs (call_invalid h w)) = effects (call_invalid h w) @ xs"
    "list_all callback_effect xs"
    using Cons.IH by blast
  show ?case
    using xs by (cases h) (simp add: createWatchCompiler_invalid_def)
qed

lemma fold_call_done_effects:
  "\<exists>xs. effects (fold (call_done stats) hs w) = effects w @ xs \<and> list_all callback_effect xs"
proof (induction hs arbitrary: w)
  case Nil
  then show ?case by simp
next
  case (Cons h hs)
  obtain xs where xs: "effects (fold (call_done stats) hs (call_done stats h w)) = effects (call_done stats h w) @ xs"
    "list_all callback_effect xs"
    using Cons.IH by blast
  show ?case
    using xs by (cases h) (simp_all add: createWatchCompiler_done_def memoryWatch_done_def)
qed

lemma serve_listen_callback_effects [simp]:
  "effects (serve_listen_callback error w) = effects w"
  by (simp add: serve_listen_callback_def split: option.splits)

lemma then_flush_effects:
  assumes "\<exists>xs. effects w' = effects w @ xs \<and> list_all callback_effect xs"
  shows "\<exists>xs. effects (flush w') = effects w @ xs \<and> list_all callback_effect xs"
proof -
  obtain xs where xs: "effects w' = effects w @ xs" "list_all callback_effect xs"
    using assms by blast
  obtain ys where ys: "effects (flush w') = effects w' @ ys" "list_all callback_effect ys"
    using flush_effects by blast
  have "effects (flush w') = effects w @ (xs @ ys)" "list_all callback_effect (xs @ ys)"
    using xs ys by simp_all
  then show ?thesis by blast
qed

lemma deliver_effects:
  "\<exists>xs. effects (deliver e w) = effects w @ xs \<and> list_all callback_effect xs"
proof (cases e)
  case (RunCallback err stats)
  show ?thesis
    unfolding RunCallback deliver.simps
    by (rule then_flush_effects) (cases "run_callback w"; simp add: build_callback_effects)
next
  case (WatchCallback err stats)
  show ?thesis
    unfolding WatchCallback deliver.simps
    by (rule then_flush_effects) (cases "watch_callback w"; simp add: fileWatch_callback_effects split: prod.splits)
next
  case Invalid
  show ?thesis
    unfolding Invalid deliver.simps
    by (rule then_flush_effects) (rule fold_call_invalid_effects)
next
  case (Done stats)
  show ?thesis
    unfolding Done deliver.simps
    by (rule then_flush_effects) (rule fold_call_done_effects)
next
  case (ListenCallback error)
  show ?thesis
    unfolding ListenCallback deliver.simps
    by (rule then_flush_effects) simp
qed

lemma deliver_all_effects:
  "\<exists>xs. effects (deliver_all events w) = effects w @ xs \<and> list_all callback_effect xs"
  unfolding deliver_all_def
proof (induction events arbitrary: w)
  case Nil
  then show ?case by simp
next
  case (Cons e events)
  obtain xs where xs: "effects (deliver e w) = effects w @ xs" "list_all callback_effect xs"
    using deliver_effects by blast
  obtain ys where ys: "effects (fold deliver events (deliver e w)) = effects (deliver e w) @ ys"
    "list_all callback_effect ys"
    using Cons.IH by blast
  have "effects (fold deliver (e # events) w) = effects w @ (xs @ ys)" "list_all callback_effect (xs @ ys)"
    using xs ys by simp_all
  then show ?case by blast
qed

subsection \<open>What the functions of main.ts call\<close>

lemma effects_build:
  "effects (snd (build config w)) = effects w @
     [Webpack config, FixMultipleWatchTrigger (Compiler config), OraStart ''building'',
      CompilerRun (Compiler config)]"
  by (simp add: build_def createCompiler_def new_promise_def Let_def)

lemma effects_fileWatch:
  "effects (snd (fileWatch config args w)) = effects w @
     [Webpack config, FixMultipleWatchTrigger (Compiler config), OraStart ''building'',
      CompilerWatch (Compiler config) (watchOptions config)]"
  by (simp add: fileWatch_def createWatchCompiler_def createCompiler_def new_promise_def Let_def)

lemma effects_memoryWatch:
  "effects (snd (snd (memoryWatch config args w))) = effects w @
     (case fst (memoryWatch config args w) of
        Inl e \<Rightarrow> []
      | Inr p \<Rightarrow>
          [Webpack (fst (snd (memoryWatch config args w))),
           FixMultipleWatchTrigger (Compiler (fst (snd (memoryWatch config args w)))),
           OraStart ''building'',
           AppUse
             [WebpackMiddleware (Compiler (fst (snd (memoryWatch config args w))))
                \<lparr>logLevel = ''silent'', noInfo = True, publicPath = ''/'',
                 dev_watchOptions = watchOptions config\<rparr>,
              HotMiddleware (Compiler (fst (snd (memoryWatch config args w))))
                \<lparr>heartbeat = 10000\<rparr>]])"
  by (simp add: memoryWatch_def createWatchCompiler_def createCompiler_def new_promise_def
      Let_def case_prod_beta split: option.splits)

lemma flush_promises_other:
  "p \<noteq> ServePromise \<Longrightarrow> p \<noteq> ListenPromise \<Longrightarrow> promises (flush w) p = promises w p"
  by (auto simp: flush_def serve_second_then_def new_promise_def emit_def resolve_def reject_def
      split: pending_then.splits option.splits promise.splits)

lemma logger_calls_flush: "logger_calls (effects (flush w)) = logger_calls (effects w)"
  by (auto simp: flush_def serve_second_then_def logger_calls_append
      split: pending_then.splits option.splits promise.splits)

lemma factory_calls_flush: "factory_calls (effects (flush w)) = factory_calls (effects w)"
  using flush_effects [of w] callback_effects_silent by (auto simp: factory_calls_append)

lemma factory_calls_serve_first_then:
  "factory_calls (effects (snd (snd (serve_first_then config args w)))) = factory_calls (effects w)"
  by (simp add: serve_first_then_def effects_memoryWatch effects_fileWatch factory_calls_append
      Let_def case_prod_beta split: sum.splits)

lemma factory_calls_serve:
  "factory_calls (effects (snd (snd (serve cwd config args w)))) = factory_calls (effects w)"
  by (simp add: serve_def Let_def case_prod_beta factory_calls_flush serve_second_then_def
      factory_calls_serve_first_then factory_calls_append
      split: sum.splits option.splits)

lemma express_calls_append: "express_calls (xs @ ys) = express_calls xs + express_calls ys"
  by (induction xs rule: express_calls.induct) simp_all

lemma run_calls_append: "run_calls (xs @ ys) = run_calls xs @ run_calls ys"
  by (induction xs rule: run_calls.induct) simp_all

lemma watch_calls_append: "watch_calls (xs @ ys) = watch_calls xs @ watch_calls ys"
  by (induction xs rule: watch_calls.induct) simp_all

lemma callback_effects_no_start:
  "list_all callback_effect xs \<Longrightarrow>
     express_calls xs = 0 \<and> run_calls xs = [] \<and> watch_calls xs = []"
proof (induction xs)
  case Nil
  then show ?case by simp
next
  case (Cons x xs)
  then show ?case by (cases x) simp_all
qed

lemma memoryWatch_world_independent:
  "fst (memoryWatch config args w) = fst (memoryWatch config args w')"
  "fst (snd (memoryWatch config args w)) = fst (snd (memoryWatch config args w'))"
  by (simp_all add: memoryWatch_def Let_def case_prod_beta split: option.splits)

lemma effects_serve:
  "effects (snd (snd (serve cwd config args w))) = effects w @ [Express] @
     (if arg_watch args \<noteq> JStr ''memory'' then
        [AppUse [Static (outputDir cwd config)]]
      else []) @
     (if arg_watch args = JStr ''memory'' \<and> arg_mode args = JStr ''dev'' then
        (case fst (memoryWatch config args w) of
           Inl e \<Rightarrow> []
         | Inr p \<Rightarrow>
             [Webpack (fst (snd (memoryWatch config args w))),
              FixMultipleWatchTrigger (Compiler (fst (snd (memoryWatch config args w)))),
              OraStart ''building'',
              AppUse
                [WebpackMiddleware (Compiler (fst (snd (memoryWatch config args w))))
                   \<lparr>logLevel = ''silent'', noInfo = True, publicPath = ''/'',
                    dev_watchOptions = watchOptions config\<rparr>,
                 HotMiddleware (Compiler (fst (snd (memoryWatch config args w))))
                   \<lparr>heartbeat = 10000\<rparr>],
              AppListen (arg_port args)])
      else if truthy (arg_watch args) then
        (if arg_watch args = JStr ''memory''
         then [ConsoleWarn ''Memory watch requires `--mode=dev`. Using file watch instead...'']
         else []) @
        [Webpack config, FixMultipleWatchTrigger (Compiler config), OraStart ''building'',
         CompilerWatch (Compiler config) (watchOptions config)]
      else [AppListen (arg_port args)])"
proof (cases "arg_watch args = JStr ''memory'' \<and> arg_mode args = JStr ''dev''")
  case True
  let ?w = "new_promise ServePromise Pending (emit Express w)"
  have m: "fst (memoryWatch config args ?w) = fst (memoryWatch config args w)"
    "fst (snd (memoryWatch config args ?w)) = fst (snd (memoryWatch config args w))"
    by (rule memoryWatch_world_independent)+
  have p: "fst (memoryWatch config args ?w) = Inr q \<Longrightarrow>
      q = MemoryWatchPromise \<and> promises (snd (snd (memoryWatch config args ?w))) q = Some Resolved" for q
    by (auto simp: memoryWatch_def Let_def case_prod_beta createWatchCompiler_def createCompiler_def new_promise_def emit_def
        split: option.splits)
  show ?thesis
    using True effects_memoryWatch [of config args ?w] m p
    by (cases "fst (memoryWatch config args w)")
       (simp_all add: serve_def serve_first_then_def Let_def case_prod_beta flush_def serve_second_then_def
        split: sum.splits)
next
  case False
  then show ?thesis
    by (auto simp: serve_def serve_first_then_def Let_def case_prod_beta flush_def serve_second_then_def
        effects_fileWatch fileWatch_def createWatchCompiler_def createCompiler_def new_promise_def emit_def)
qed


lemma config_serve:
  "fst (snd (serve cwd config args w)) =
     (if arg_watch args = JStr ''memory'' \<and> arg_mode args = JStr ''dev''
      then fst (snd (memoryWatch config args w)) else config)"
proof -
  let ?w = "new_promise ServePromise Pending (emit Express w)"
  have "fst (snd (memoryWatch config args ?w)) = fst (snd (memoryWatch config args w))"
    by (rule memoryWatch_world_independent)
  then show ?thesis
    by (simp add: serve_def serve_first_then_def Let_def case_prod_beta split: sum.splits)
qed

lemma fst_run:
  "fst (run fs cwd helper args w) =
     (if truthy (arg_serve args) then ServePromise
      else if truthy (arg_watch args) then FileWatchPromise else BuildPromise)"
  by (simp add: run_def serve_def fileWatch_def build_def Let_def case_prod_beta)

lemma show_int_timeout: "show_int 20000 = ''20000''"
  by (simp add: show_int_def digits.simps digit_char_def)

lemma unshift_entries_modules:
  "unshift_entries client (map (\<lambda>(name, ms). (name, Modules ms)) named)
     = (None, map (\<lambda>(name, ms). (name, Modules (client # ms))) named)"
  by (induction named) (simp_all add: case_prod_beta)

lemma unshift_entries_returns_iff:
  "fst (unshift_entries client es) = None \<longleftrightarrow> (\<forall>name m. (name, Module m) \<notin> set es)"
  by (induction client es rule: unshift_entries.induct) (auto simp: case_prod_beta)

lemma unshift_entries_heads:
  assumes "fst (unshift_entries client es) = None"
      and "(name, Modules ms) \<in> set (snd (unshift_entries client es))"
  shows "\<exists>rest. ms = client # rest"
  using assms
  by (induction client es rule: unshift_entries.induct) (auto simp: case_prod_beta)

lemma memoryWatch_entry_heads:
  assumes "fst (memoryWatch config args w) = Inr p"
      and "(name, Modules ms) \<in> set (entry (fst (snd (memoryWatch config args w))))"
  shows "\<exists>rest. ms = ''webpack-hot-middleware/client?timeout=20000&reload=true'' # rest"
proof -
  let ?client = "''webpack-hot-middleware/client?timeout=20000&reload=true''"
  obtain ps where ps: "plugins config = Some ps"
    using assms(1) by (cases "plugins config") (simp_all add: memoryWatch_def)
  have none: "fst (unshift_entries ?client (entry config)) = None"
    using assms(1) ps
    by (cases "fst (unshift_entries ?client (entry config))")
      (simp_all add: memoryWatch_def Let_def case_prod_beta show_int_timeout)
  have "entry (fst (snd (memoryWatch config args w)))
      = snd (unshift_entries ?client (entry config))"
    using ps none
    by (simp add: memoryWatch_def Let_def case_prod_beta show_int_timeout)
  then show ?thesis
    using assms(2) unshift_entries_heads [OF none] by simp
qed

lemma memoryWatch_returns_iff:
  "fst (memoryWatch config args w) = Inr MemoryWatchPromise
     \<longleftrightarrow> plugins config \<noteq> None \<and> (\<forall>name m. (name, Module m) \<notin> set (entry config))"
proof (cases "plugins config")
  case None
  then show ?thesis by (simp add: memoryWatch_def)
next
  case (Some ps)
  then show ?thesis
    using unshift_entries_returns_iff
      [of "''webpack-hot-middleware/client?timeout='' @ show_int (20 * 1000) @ ''&reload=true''"
        "entry config"]
    by (cases "fst (unshift_entries
          (''webpack-hot-middleware/client?timeout='' @ show_int (20 * 1000) @ ''&reload=true'')
          (entry config))")
      (simp_all add: memoryWatch_def Let_def case_prod_beta createWatchCompiler_def
        createCompiler_def)
qed

lemma memoryWatch_returns_only:
  "fst (memoryWatch config args w) = Inr p \<Longrightarrow> p = MemoryWatchPromise"
  by (auto simp: memoryWatch_def Let_def case_prod_beta split: option.splits)

lemma memoryWatch_on_modules:
  assumes "plugins config = Some ps"
      and "entry config = map (\<lambda>(name, ms). (name, Modules ms)) named"
  shows "fst (memoryWatch config args w) = Inr MemoryWatchPromise"
    and "fst (snd (memoryWatch config args w)) =
         config\<lparr>plugins := Some (ps @ [HotModuleReplacementPlugin, NoEmitOnErrorsPlugin]),
                entry := map (\<lambda>(name, ms).
                    (name, Modules (''webpack-hot-middleware/client?timeout=20000&reload=true'' # ms)))
                  named\<rparr>"
  using assms
  by (simp_all add: memoryWatch_def Let_def unshift_entries_modules show_int_timeout
      createWatchCompiler_def createCompiler_def)

lemma memoryWatch_example:
  "fst (memoryWatch example_config args w) = Inr MemoryWatchPromise"
  "fst (snd (memoryWatch example_config args w)) = example_hot_config"
  using memoryWatch_on_modules [where config = example_config and ps = "[Plugin ''existing'']"
      and named = "[(''main'', [''a.js''])]" and args = args and w = w]
  by (simp_all add: example_config_def example_hot_config_def)

lemma show_int_port: "show_int 9999 = ''9999''"
  by (simp add: show_int_def digits.simps digit_char_def)

lemma logger_calls_fileWatch_callback:
  "logger_calls (effects (fileWatch_callback config args err stats w)) = logger_calls (effects w) @
     (case stats of
        None \<Rightarrow> []
      | Some s \<Rightarrow>
          [(ToJson s, config,
            Some (if truthy (arg_serve args)
                  then ''Listening on port '' @ to_string (arg_port args)
                  else ''watching...''))])"
  by (simp add: fileWatch_callback_def Let_def logger_calls_append split: option.splits)

lemma watch_callback_fileWatch:
  "watch_callback (snd (fileWatch config args w)) = Some (config, args)"
  by (simp add: fileWatch_def Let_def case_prod_beta)

lemma done_hooks_memoryWatch:
  "fst (memoryWatch config args w) = Inr p \<Longrightarrow>
     done_hooks (snd (snd (memoryWatch config args w))) =
       done_hooks w @ [StopSpinner, LogListening (fst (snd (memoryWatch config args w))) args]"
  by (auto simp: memoryWatch_def Let_def case_prod_beta createWatchCompiler_def
      createCompiler_def new_promise_def emit_def split: option.splits)

lemma logger_calls_memoryWatch:
  "logger_calls (effects (snd (snd (memoryWatch config args w)))) = logger_calls (effects w)"
  by (simp add: effects_memoryWatch logger_calls_append split: sum.splits)

lemma app_uses_serve:
  "app_uses (effects (snd (snd (serve cwd config args w)))) = app_uses (effects w) @
     (if arg_watch args \<noteq> JStr ''memory'' then
        [Static (outputDir cwd config)]
      else if arg_mode args = JStr ''dev'' then
        (case fst (memoryWatch config args w) of
           Inl e \<Rightarrow> []
         | Inr p \<Rightarrow>
             [WebpackMiddleware (Compiler (fst (snd (memoryWatch config args w))))
                \<lparr>logLevel = ''silent'', noInfo = True, publicPath = ''/'',
                 dev_watchOptions = watchOptions config\<rparr>,
              HotMiddleware (Compiler (fst (snd (memoryWatch config args w))))
                \<lparr>heartbeat = 10000\<rparr>])
      else [])"
  by (simp add: effects_serve app_uses_append split: sum.splits)

lemma config_run:
  "fst (snd (run fs cwd helper args w)) =
     (let rc = (case helper of Some r \<Rightarrow> r | None \<Rightarrow> []);
          config = (if arg_mode args = JStr ''dev'' then devConfigFactory fs rc
                    else if arg_mode args = JStr ''test'' then testConfigFactory fs rc
                    else distConfigFactory fs rc)
      in if truthy (arg_serve args) \<and> arg_watch args = JStr ''memory''
            \<and> arg_mode args = JStr ''dev''
         then fst (snd (memoryWatch config args w)) else config)"
proof -
  have "fst (snd (memoryWatch c args
          (emit (FactoryCall DevConfigFactory rc) (emit ConfigurationGet (emit ConsoleLogSilenced w)))))
        = fst (snd (memoryWatch c args w))" for c rc
    by (rule memoryWatch_world_independent)
  then show ?thesis
    by (simp add: run_def config_serve Let_def case_prod_beta)
qed

lemma outputDir_example: "outputDir cwd example_config = ''/project/output''"
  by (simp add: outputDir_def example_config_def)

subsection \<open>Settled promises stay settled\<close>

lemma watch_callback_flush [simp]: "watch_callback (flush w) = watch_callback w"
  by (simp add: flush_def serve_second_then_def new_promise_def emit_def resolve_def reject_def
      split: pending_then.splits option.splits promise.splits)

lemma watch_callback_fold_invalid [simp]:
  "watch_callback (fold call_invalid hs w) = watch_callback w"
proof (induction hs arbitrary: w)
  case Nil
  then show ?case by simp
next
  case (Cons h hs)
  then show ?case by (cases h) (simp add: createWatchCompiler_invalid_def emit_def)
qed

lemma watch_callback_fold_done [simp]:
  "watch_callback (fold (call_done stats) hs w) = watch_callback w"
proof (induction hs arbitrary: w)
  case Nil
  then show ?case by simp
next
  case (Cons h hs)
  then show ?case
    by (cases h) (simp_all add: createWatchCompiler_done_def memoryWatch_done_def emit_def logger_def)
qed

lemma watch_callback_deliver: "watch_callback (deliver e w) = watch_callback w"
  by (cases e)
    (simp_all add: build_callback_def fileWatch_callback_def serve_listen_callback_def
      emit_def logger_def resolve_def reject_def Let_def split: option.splits prod.splits)

lemma watch_callback_deliver_all: "watch_callback (deliver_all events w) = watch_callback w"
  unfolding deliver_all_def
  by (induction events arbitrary: w) (simp_all add: watch_callback_deliver)

lemma promises_fold_invalid [simp]:
  "promises (fold call_invalid hs w) = promises w"
proof (induction hs arbitrary: w)
  case Nil
  then show ?case by simp
next
  case (Cons h hs)
  then show ?case by (cases h) (simp add: createWatchCompiler_invalid_def emit_def)
qed

lemma promises_fold_done [simp]:
  "promises (fold (call_done stats) hs w) = promises w"
proof (induction hs arbitrary: w)
  case Nil
  then show ?case by simp
next
  case (Cons h hs)
  then show ?case
    by (cases h) (simp_all add: createWatchCompiler_done_def memoryWatch_done_def emit_def logger_def)
qed

lemma settled_flush:
  assumes "promises w p = Some s" and "s \<noteq> Pending" and "p \<noteq> ListenPromise"
  shows "promises (flush w) p = Some s"
  using assms
  by (auto simp: flush_def serve_second_then_def new_promise_def emit_def resolve_def reject_def
      split: pending_then.splits option.splits promise.splits)

lemma settled_build_callback:
  assumes "promises w p = Some s" and "s \<noteq> Pending"
  shows "promises (build_callback config err stats w) p = Some s"
  using assms
  by (auto simp: build_callback_def emit_def logger_def resolve_def reject_def Let_def
      split: option.splits)

lemma settled_fileWatch_callback:
  assumes "promises w p = Some s" and "s \<noteq> Pending"
  shows "promises (fileWatch_callback config args err stats w) p = Some s"
  using assms
  by (auto simp: fileWatch_callback_def emit_def logger_def resolve_def reject_def Let_def
      split: option.splits)

lemma settled_serve_listen_callback:
  assumes "promises w p = Some s" and "s \<noteq> Pending"
  shows "promises (serve_listen_callback error w) p = Some s"
  using assms
  by (auto simp: serve_listen_callback_def resolve_def reject_def split: option.splits)

lemma settled_deliver:
  assumes "promises w p = Some s" and "s \<noteq> Pending" and "p \<noteq> ListenPromise"
  shows "promises (deliver e w) p = Some s"
proof (cases e)
  case (RunCallback err stats)
  show ?thesis
    unfolding RunCallback deliver.simps
    by (rule settled_flush [OF _ assms(2,3)])
      (cases "run_callback w"; simp add: assms settled_build_callback)
next
  case (WatchCallback err stats)
  show ?thesis
    unfolding WatchCallback deliver.simps
    by (rule settled_flush [OF _ assms(2,3)])
      (cases "watch_callback w"; simp add: assms settled_fileWatch_callback split: prod.splits)
next
  case Invalid
  show ?thesis
    unfolding Invalid deliver.simps
    by (rule settled_flush [OF _ assms(2,3)]) (simp add: assms)
next
  case (Done stats)
  show ?thesis
    unfolding Done deliver.simps
    by (rule settled_flush [OF _ assms(2,3)]) (simp add: assms)
next
  case (ListenCallback error)
  show ?thesis
    unfolding ListenCallback deliver.simps
    by (rule settled_flush [OF _ assms(2,3)]) (simp add: assms settled_serve_listen_callback)
qed

lemma settled_deliver_all:
  assumes "promises w p = Some s" and "s \<noteq> Pending" and "p \<noteq> ListenPromise"
  shows "promises (deliver_all events w) p = Some s"
  using assms(1) unfolding deliver_all_def
proof (induction events arbitrary: w)
  case Nil
  then show ?case by simp
next
  case (Cons e events)
  have "promises (deliver e w) p = Some s"
    using Cons.prems assms(2,3) by (rule settled_deliver)
  then show ?case
    using Cons.IH by simp
qed

lemma promises_fileWatch:
  "promises (snd (fileWatch config args w)) FileWatchPromise = Some Pending"
  by (simp add: fileWatch_def createWatchCompiler_def createCompiler_def new_promise_def emit_def
      Let_def)

lemma watch_promise_build_callback:
  "promises (build_callback config err stats w) FileWatchPromise = promises w FileWatchPromise"
  by (simp add: build_callback_def emit_def logger_def resolve_def reject_def Let_def
      split: option.splits)

lemma watch_promise_serve_listen_callback:
  "promises (serve_listen_callback error w) FileWatchPromise = promises w FileWatchPromise"
  by (simp add: serve_listen_callback_def resolve_def reject_def split: option.splits)

lemma watch_promise_other_event:
  assumes "\<forall>err stats. e \<noteq> WatchCallback err stats"
  shows "promises (deliver e w) FileWatchPromise = promises w FileWatchPromise"
  using assms
  by (cases e)
    (simp_all add: flush_promises_other watch_promise_build_callback
      watch_promise_serve_listen_callback split: option.splits)

lemma watch_promise_other_events:
  assumes "\<forall>err stats. WatchCallback err stats \<notin> set events"
  shows "promises (deliver_all events w) FileWatchPromise = promises w FileWatchPromise"
  using assms unfolding deliver_all_def
proof (induction events arbitrary: w)
  case Nil
  then show ?case by simp
next
  case (Cons e events)
  have "\<forall>err stats. e \<noteq> WatchCallback err stats"
    using Cons.prems by auto
  then have "promises (deliver e w) FileWatchPromise = promises w FileWatchPromise"
    by (rule watch_promise_other_event)
  moreover have "\<forall>err stats. WatchCallback err stats \<notin> set events"
    using Cons.prems by auto
  ultimately show ?case
    using Cons.IH by simp
qed

lemma watch_promise_first_callback:
  assumes "promises w FileWatchPromise = Some Pending"
  shows "promises (fileWatch_callback config args err stats w) FileWatchPromise
     = Some (case err of Some e \<Rightarrow> Rejected e | None \<Rightarrow> Resolved)"
  using assms
  by (simp add: fileWatch_callback_def emit_def logger_def resolve_def reject_def Let_def
      split: option.splits)

subsection \<open>The chain of serve before the server listens\<close>

lemma before_listening_flush:
  assumes "before_listening w"
  shows "before_listening (flush w)"
  using assms
  by (auto simp: before_listening_def flush_def serve_second_then_def new_promise_def emit_def
      resolve_def reject_def split: pending_then.splits option.splits promise.splits)

lemma before_listening_build_callback:
  assumes "before_listening w"
  shows "before_listening (build_callback config err stats w)"
  using assms
  by (auto simp: before_listening_def build_callback_def emit_def logger_def resolve_def
      reject_def Let_def split: pending_then.splits option.splits)

lemma before_listening_fileWatch_callback:
  assumes "before_listening w"
  shows "before_listening (fileWatch_callback config args err stats w)"
  using assms
  by (auto simp: before_listening_def fileWatch_callback_def emit_def logger_def resolve_def
      reject_def Let_def split: pending_then.splits option.splits)

lemma fold_call_invalid_fields:
  "serve_then (fold call_invalid hs w) = serve_then w"
  "listen_callback (fold call_invalid hs w) = listen_callback w"
proof (induction hs arbitrary: w)
  case Nil
  {
    case 1
    show ?case by simp
  next
    case 2
    show ?case by simp
  }
next
  case (Cons h hs)
  {
    case 1
    show ?case using Cons.IH(1) by (cases h) (simp add: createWatchCompiler_invalid_def emit_def)
  next
    case 2
    show ?case using Cons.IH(2) by (cases h) (simp add: createWatchCompiler_invalid_def emit_def)
  }
qed

lemma fold_call_done_fields:
  "serve_then (fold (call_done stats) hs w) = serve_then w"
  "listen_callback (fold (call_done stats) hs w) = listen_callback w"
proof (induction hs arbitrary: w)
  case Nil
  {
    case 1
    show ?case by simp
  next
    case 2
    show ?case by simp
  }
next
  case (Cons h hs)
  {
    case 1
    show ?case using Cons.IH(1)
      by (cases h) (simp_all add: createWatchCompiler_done_def memoryWatch_done_def emit_def logger_def)
  next
    case 2
    show ?case using Cons.IH(2)
      by (cases h) (simp_all add: createWatchCompiler_done_def memoryWatch_done_def emit_def logger_def)
  }
qed

lemma before_listening_deliver:
  assumes "before_listening w" and "\<forall>error. e \<noteq> ListenCallback error"
  shows "before_listening (deliver e w)"
proof (cases e)
  case (RunCallback err stats)
  show ?thesis
    unfolding RunCallback deliver.simps
    by (rule before_listening_flush)
      (cases "run_callback w"; simp add: assms(1) before_listening_build_callback)
next
  case (WatchCallback err stats)
  show ?thesis
    unfolding WatchCallback deliver.simps
    by (rule before_listening_flush)
      (cases "watch_callback w";
        simp add: assms(1) before_listening_fileWatch_callback split: prod.splits)
next
  case Invalid
  have "before_listening (fold call_invalid (invalid_hooks w) w)"
    using assms(1)
    by (simp add: before_listening_def fold_call_invalid_fields split: pending_then.splits)
  then show ?thesis
    unfolding Invalid deliver.simps by (rule before_listening_flush)
next
  case (Done stats)
  have "before_listening (fold (call_done stats) (done_hooks w) w)"
    using assms(1)
    by (simp add: before_listening_def fold_call_done_fields split: pending_then.splits)
  then show ?thesis
    unfolding Done deliver.simps by (rule before_listening_flush)
next
  case (ListenCallback error)
  then show ?thesis using assms(2) by simp
qed

lemma before_listening_deliver_all:
  assumes "before_listening w" and "\<forall>error. ListenCallback error \<notin> set events"
  shows "before_listening (deliver_all events w)"
  using assms unfolding deliver_all_def
proof (induction events arbitrary: w)
  case Nil
  then show ?case by simp
next
  case (Cons e events)
  have "\<forall>error. e \<noteq> ListenCallback error"
    using Cons.prems(2) by auto
  then have "before_listening (deliver e w)"
    using Cons.prems(1) by (simp add: before_listening_deliver)
  moreover have "\<forall>error. ListenCallback error \<notin> set events"
    using Cons.prems(2) by auto
  ultimately show ?case
    using Cons.IH by simp
qed

lemma before_listening_serve:
  "before_listening (snd (snd (serve cwd config args (started es))))"
proof (cases "arg_watch args = JStr ''memory'' \<and> arg_mode args = JStr ''dev''")
  case True
  then show ?thesis
    by (auto simp: serve_def serve_first_then_def memoryWatch_def createWatchCompiler_def
        createCompiler_def serve_second_then_def flush_def new_promise_def emit_def reject_def
        before_listening_def started_def init_world_def Let_def case_prod_beta
        split: option.splits sum.splits)
next
  case False
  then show ?thesis
    by (auto simp: serve_def serve_first_then_def fileWatch_def createWatchCompiler_def
        createCompiler_def serve_second_then_def flush_def new_promise_def emit_def
        before_listening_def started_def init_world_def Let_def case_prod_beta)
qed

lemma listen_callback_settles:
  assumes "before_listening w" and "listen_callback w"
  shows "promises (deliver (ListenCallback error) w) ServePromise
     = Some (case error of Some e \<Rightarrow> Rejected e | None \<Rightarrow> Resolved)"
  using assms
  by (auto simp: before_listening_def serve_listen_callback_def flush_def resolve_def reject_def
      split: pending_then.splits option.splits)

text \<open>\<open>run\<close> calls \<open>serve\<close> in a world where only calls have been made.\<close>

lemma run_enters_serve:
  assumes "truthy (arg_serve args)"
  shows "run fs cwd helper args init_world =
     (let rc = (case helper of Some r \<Rightarrow> r | None \<Rightarrow> []);
          f = (if arg_mode args = JStr ''dev'' then DevConfigFactory
               else if arg_mode args = JStr ''test'' then TestConfigFactory
               else DistConfigFactory);
          config = (if arg_mode args = JStr ''dev'' then devConfigFactory fs rc
                    else if arg_mode args = JStr ''test'' then testConfigFactory fs rc
                    else distConfigFactory fs rc)
      in serve cwd config args (started [ConsoleLogSilenced, ConfigurationGet, FactoryCall f rc]))"
  using assms
  by (simp add: run_def Let_def emit_def started_def init_world_def)

section \<open>The one-shot build\<close>

text \<open>
  Claim C1. \<open>build\<close> returns the promise it creates. When the callback given to
  \<^verbatim>\<open>compiler.run\<close> is called with an error, that promise is rejected with this error,
  whatever the stats are. When it is called with stats and no error, the promise is
  resolved and the logger has been called exactly once more than before \<open>build\<close>, with
  the stats as JSON, the configuration and no status message.
\<close>

theorem build_outcome:
  "fst (build config w) = BuildPromise
   \<and> promises (deliver (RunCallback (Some e) stats) (snd (build config w))) BuildPromise
       = Some (Rejected e)
   \<and> promises (deliver (RunCallback None (Some s)) (snd (build config w))) BuildPromise
       = Some Resolved
   \<and> logger_calls (effects (deliver (RunCallback None (Some s)) (snd (build config w))))
       = logger_calls (effects w) @ [(ToJson s, config, None)]"
  by (simp add: flush_promises_other logger_calls_flush build_def createCompiler_def
      build_callback_def new_promise_def emit_def resolve_def reject_def logger_def
      logger_calls_append Let_def split: option.splits)

theorem build_outcome_witness:
  "fst (build example_config init_world) = BuildPromise
   \<and> promises (deliver (RunCallback (Some (Error ''boom'')) (Some (Stats ''partial'')))
         (snd (build example_config init_world))) BuildPromise
       = Some (Rejected (Error ''boom''))
   \<and> promises (deliver (RunCallback None (Some (Stats ''ok'')))
         (snd (build example_config init_world))) BuildPromise
       = Some Resolved
   \<and> logger_calls (effects (deliver (RunCallback None (Some (Stats ''ok'')))
         (snd (build example_config init_world))))
       = [(ToJson (Stats ''ok''), example_config, None)]"
  using build_outcome [where config = example_config and w = init_world
      and e = "Error ''boom''" and stats = "Some (Stats ''partial'')" and s = "Stats ''ok''"]
  by (simp add: init_world_def)

section \<open>The choice of the configuration factory\<close>

text \<open>
  Claim C2. In a whole run (\<open>run\<close> and every callback after it), exactly one factory
  is called, once: the dev factory when \<^verbatim>\<open>args.mode\<close> is \<^verbatim>\<open>'dev'\<close>, the test factory
  when it is \<^verbatim>\<open>'test'\<close>, the dist factory for every other value, undefined included. It
  is called with the project's settings, or with the empty object when there are none.
\<close>

theorem run_selects_one_factory:
  "factory_calls (effects (deliver_all events (snd (snd (run fs cwd helper args w)))))
     = factory_calls (effects w) @
       [(if arg_mode args = JStr ''dev'' then DevConfigFactory
         else if arg_mode args = JStr ''test'' then TestConfigFactory
         else DistConfigFactory,
         case helper of Some r \<Rightarrow> r | None \<Rightarrow> [])]"
proof -
  obtain xs where xs:
    "effects (deliver_all events (snd (snd (run fs cwd helper args w))))
       = effects (snd (snd (run fs cwd helper args w))) @ xs"
    "list_all callback_effect xs"
    using deliver_all_effects by blast
  have "factory_calls xs = []"
    using xs(2) callback_effects_silent by blast
  moreover have "factory_calls (effects (snd (snd (run fs cwd helper args w))))
     = factory_calls (effects w) @
       [(if arg_mode args = JStr ''dev'' then DevConfigFactory
         else if arg_mode args = JStr ''test'' then TestConfigFactory
         else DistConfigFactory,
         case helper of Some r \<Rightarrow> r | None \<Rightarrow> [])]"
    by (simp add: run_def Let_def case_prod_beta factory_calls_serve effects_fileWatch
        effects_build factory_calls_append)
  ultimately show ?thesis
    using xs(1) by (simp add: factory_calls_append)
qed

theorem run_selects_one_factory_witness:
  "factory_calls (effects (deliver_all [RunCallback None (Some (Stats ''ok''))]
       (snd (snd (run example_factories ''/project'' None
          \<lparr>arg_mode = JUndefined, arg_watch = JUndefined, arg_serve = JUndefined,
           arg_port = JNum 9999\<rparr> init_world)))))
     = [(DistConfigFactory, [])]
   \<and> factory_calls (effects (deliver_all [ListenCallback None]
       (snd (snd (run example_factories ''/project'' (Some [(''name'', ''app'')])
          \<lparr>arg_mode = JStr ''dev'', arg_watch = JStr ''memory'', arg_serve = JBool True,
           arg_port = JNum 9999\<rparr> init_world)))))
     = [(DevConfigFactory, [(''name'', ''app'')])]"
  using run_selects_one_factory [where events = "[RunCallback None (Some (Stats ''ok''))]"
      and fs = example_factories and cwd = "''/project''" and helper = None
      and args = "\<lparr>arg_mode = JUndefined, arg_watch = JUndefined, arg_serve = JUndefined,
           arg_port = JNum 9999\<rparr>" and w = init_world]
    run_selects_one_factory [where events = "[ListenCallback None]"
      and fs = example_factories and cwd = "''/project''" and helper = "Some [(''name'', ''app'')]"
      and args = "\<lparr>arg_mode = JStr ''dev'', arg_watch = JStr ''memory'', arg_serve = JBool True,
           arg_port = JNum 9999\<rparr>" and w = init_world]
  by (simp add: init_world_def)

section \<open>The priority of serve over watch over build\<close>

text \<open>
  Claim C3. A run takes exactly one of three paths, chosen by \<^verbatim>\<open>args.serve\<close> first and
  \<^verbatim>\<open>args.watch\<close> second, whatever \<^verbatim>\<open>args.mode\<close> is. When \<^verbatim>\<open>serve\<close> is truthy the
  run returns the promise of \<open>serve\<close> and creates the one express application; otherwise
  no application is ever created. When \<^verbatim>\<open>serve\<close> is falsy and \<^verbatim>\<open>watch\<close> truthy the run
  returns the promise of \<open>fileWatch\<close>, starts exactly one watch, and warns exactly when
  \<^verbatim>\<open>watch\<close> is \<^verbatim>\<open>'memory'\<close>. When both are falsy the run returns the promise of \<open>build\<close>
  and calls \<^verbatim>\<open>compiler.run\<close> once; on the two other paths \<^verbatim>\<open>compiler.run\<close> is never
  called. This holds of the whole run, with every callback that follows.
\<close>

theorem run_priority_chain:
  "let r = run fs cwd helper args init_world;
       es = effects (deliver_all events (snd (snd r)))
   in fst r = (if truthy (arg_serve args) then ServePromise
               else if truthy (arg_watch args) then FileWatchPromise else BuildPromise)
    \<and> express_calls es = (if truthy (arg_serve args) then 1 else 0)
    \<and> run_calls es =
         (if truthy (arg_serve args) \<or> truthy (arg_watch args) then []
          else [Compiler (fst (snd r))])
    \<and> watch_calls es =
         (if truthy (arg_watch args) \<and>
             \<not> (truthy (arg_serve args) \<and> arg_watch args = JStr ''memory''
                \<and> arg_mode args = JStr ''dev'')
          then [(Compiler (fst (snd r)), watchOptions (fst (snd r)))] else [])
    \<and> warnings es =
         (if arg_watch args = JStr ''memory'' then
            (if truthy (arg_serve args) then
               (if arg_mode args = JStr ''dev'' then []
                else [''Memory watch requires `--mode=dev`. Using file watch instead...''])
             else [''Memory watch requires the dev server. Using file watch instead...''])
          else [])"
proof -
  define r where "r = run fs cwd helper args init_world"
  obtain xs where xs:
    "effects (deliver_all events (snd (snd r))) = effects (snd (snd r)) @ xs"
    "list_all callback_effect xs"
    using deliver_all_effects by blast
  have silent: "express_calls xs = 0" "run_calls xs = []" "watch_calls xs = []" "warnings xs = []"
    using xs(2) callback_effects_no_start callback_effects_silent by blast+
  have sync: "express_calls (effects (snd (snd r))) = (if truthy (arg_serve args) then 1 else 0)"
    unfolding r_def
    by (simp add: run_def Let_def case_prod_beta effects_serve effects_fileWatch
        effects_build express_calls_append init_world_def split: sum.splits)
  have sync2: "run_calls (effects (snd (snd r))) =
         (if truthy (arg_serve args) \<or> truthy (arg_watch args) then []
          else [Compiler (fst (snd r))])"
    unfolding r_def
    by (simp add: run_def Let_def case_prod_beta effects_serve effects_fileWatch
        effects_build run_calls_append init_world_def split: sum.splits)
  have sync3: "watch_calls (effects (snd (snd r))) =
         (if truthy (arg_watch args) \<and>
             \<not> (truthy (arg_serve args) \<and> arg_watch args = JStr ''memory''
                \<and> arg_mode args = JStr ''dev'')
          then [(Compiler (fst (snd r)), watchOptions (fst (snd r)))] else [])"
    unfolding r_def
    by (simp add: run_def Let_def case_prod_beta effects_serve effects_fileWatch
        effects_build watch_calls_append init_world_def config_serve
        split: sum.splits)
  have sync4: "warnings (effects (snd (snd r))) =
         (if arg_watch args = JStr ''memory'' then
            (if truthy (arg_serve args) then
               (if arg_mode args = JStr ''dev'' then []
                else [''Memory watch requires `--mode=dev`. Using file watch instead...''])
             else [''Memory watch requires the dev server. Using file watch instead...''])
          else [])"
    unfolding r_def
    by (simp add: run_def Let_def case_prod_beta effects_serve effects_fileWatch
        effects_build warnings_append init_world_def split: sum.splits)
  show ?thesis
    unfolding Let_def r_def [symmetric]
    using xs(1) silent sync sync2 sync3 sync4
    by (simp add: express_calls_append run_calls_append watch_calls_append warnings_append
        r_def fst_run)
qed

theorem run_priority_chain_witness:
  "(let r = run example_factories ''/project'' None
              \<lparr>arg_mode = JStr ''test'', arg_watch = JStr ''memory'', arg_serve = JBool False,
               arg_port = JNum 9999\<rparr> init_world;
        es = effects (deliver_all [WatchCallback None (Some (Stats ''ok''))] (snd (snd r)))
    in fst r = FileWatchPromise \<and> express_calls es = 0 \<and> run_calls es = []
       \<and> watch_calls es = [(Compiler example_config, None)]
       \<and> warnings es = [''Memory watch requires the dev server. Using file watch instead...''])
   \<and> (let r = run example_factories ''/project'' None
              \<lparr>arg_mode = JStr ''dev'', arg_watch = JStr ''file'', arg_serve = JBool True,
               arg_port = JNum 9999\<rparr> init_world;
        es = effects (deliver_all [] (snd (snd r)))
    in fst r = ServePromise \<and> express_calls es = 1 \<and> run_calls es = []
       \<and> watch_calls es = [(Compiler example_config, None)] \<and> warnings es = [])
   \<and> (let r = run example_factories ''/project'' None
              \<lparr>arg_mode = JStr ''dev'', arg_watch = JUndefined, arg_serve = JUndefined,
               arg_port = JNum 9999\<rparr> init_world;
        es = effects (deliver_all [RunCallback None None] (snd (snd r)))
    in fst r = BuildPromise \<and> express_calls es = 0
       \<and> run_calls es = [Compiler example_config] \<and> watch_calls es = [] \<and> warnings es = [])"
proof -
  have cfg: "fst (snd (run example_factories ''/project'' None a init_world)) = example_config"
    if "\<not> (arg_watch a = JStr ''memory'' \<and> arg_mode a = JStr ''dev'')" for a
    using that by (auto simp: run_def config_serve Let_def case_prod_beta example_factories_def)
  show ?thesis
    using run_priority_chain [where fs = example_factories and cwd = "''/project''"
        and helper = None and events = "[WatchCallback None (Some (Stats ''ok''))]"
        and args = "\<lparr>arg_mode = JStr ''test'', arg_watch = JStr ''memory'',
          arg_serve = JBool False, arg_port = JNum 9999\<rparr>"]
      run_priority_chain [where fs = example_factories and cwd = "''/project''"
        and helper = None and events = "[]"
        and args = "\<lparr>arg_mode = JStr ''dev'', arg_watch = JStr ''file'',
          arg_serve = JBool True, arg_port = JNum 9999\<rparr>"]
      run_priority_chain [where fs = example_factories and cwd = "''/project''"
        and helper = None and events = "[RunCallback None None]"
        and args = "\<lparr>arg_mode = JStr ''dev'', arg_watch = JUndefined,
          arg_serve = JUndefined, arg_port = JNum 9999\<rparr>"]
    by (simp add: Let_def cfg example_config_def)
qed

section \<open>Memory watch\<close>

text \<open>
  Claim C4. Let the configuration have a plugin list and named entry points that each
  hold a list of modules. Then \<open>memoryWatch\<close> returns its promise and leaves the
  configuration changed in two fields only. Every entry point keeps its name and its
  modules in their order, after the hot-reload client
  \<^verbatim>\<open>webpack-hot-middleware/client?timeout=20000&reload=true\<close> put in front. The plugin
  list is the old one followed by the two plugins \<^verbatim>\<open>HotModuleReplacementPlugin\<close> and
  \<^verbatim>\<open>NoEmitOnErrorsPlugin\<close>: two longer, no plugin replaced. For the entry
  \<^verbatim>\<open>{main: ['a.js']}\<close> the result is \<^verbatim>\<open>{main: [client, 'a.js']}\<close>.
\<close>

theorem memoryWatch_injects_hot_reload:
  assumes "plugins config = Some ps"
      and "entry config = map (\<lambda>(name, ms). (name, Modules ms)) named"
  shows "fst (memoryWatch config args w) = Inr MemoryWatchPromise
     \<and> fst (snd (memoryWatch config args w)) =
         config\<lparr>plugins := Some (ps @ [HotModuleReplacementPlugin, NoEmitOnErrorsPlugin]),
                entry := map (\<lambda>(name, ms).
                    (name, Modules (''webpack-hot-middleware/client?timeout=20000&reload=true'' # ms)))
                  named\<rparr>"
  using assms by (simp add: memoryWatch_on_modules)

theorem memoryWatch_injects_hot_reload_witness:
  "fst (memoryWatch example_config example_args init_world) = Inr MemoryWatchPromise
   \<and> fst (snd (memoryWatch example_config example_args init_world)) =
       \<lparr>entry = [(''main'',
            Modules [''webpack-hot-middleware/client?timeout=20000&reload=true'', ''a.js''])],
        plugins = Some [Plugin ''existing'', HotModuleReplacementPlugin, NoEmitOnErrorsPlugin],
        output_cfg = Some \<lparr>path = Some ''/project/output''\<rparr>, watchOptions = None\<rparr>"
  using memoryWatch_injects_hot_reload [where config = example_config
      and ps = "[Plugin ''existing'']" and named = "[(''main'', [''a.js''])]"
      and args = example_args and w = init_world]
  by (simp add: example_config_def)

text \<open>
  Claim C8. When \<open>memoryWatch\<close> returns (it throws on a configuration without a plugin
  list or with a string as an entry point), the promise it returns is already resolved,
  before any callback: it starts no watch of its own and waits for none. It has added
  exactly two middlewares to the application, in this order: the in-memory asset server
  with \<^verbatim>\<open>logLevel: 'silent'\<close>, \<^verbatim>\<open>noInfo: true\<close>, \<^verbatim>\<open>publicPath: '/'\<close> and the watch
  options of the configuration, then the hot-reload transport with a heartbeat of half
  the timeout of 20 seconds (\<open>20 * 1000\<close> milliseconds), both on the compiler of the
  changed configuration. The same timeout is in the client that now heads every list of
  modules of the configuration: \<^verbatim>\<open>timeout=20000\<close>.
\<close>

theorem memoryWatch_middlewares:
  assumes "fst (memoryWatch config args w) = Inr p"
  shows "p = MemoryWatchPromise
     \<and> promises (snd (snd (memoryWatch config args w))) p = Some Resolved
     \<and> app_uses (effects (snd (snd (memoryWatch config args w)))) = app_uses (effects w) @
         [WebpackMiddleware (Compiler (fst (snd (memoryWatch config args w))))
            \<lparr>logLevel = ''silent'', noInfo = True, publicPath = ''/'',
             dev_watchOptions = watchOptions config\<rparr>,
          HotMiddleware (Compiler (fst (snd (memoryWatch config args w))))
            \<lparr>heartbeat = 20 * 1000 div 2\<rparr>]
     \<and> watch_calls (effects (snd (snd (memoryWatch config args w)))) = watch_calls (effects w)
     \<and> (\<forall>name ms. (name, Modules ms) \<in> set (entry (fst (snd (memoryWatch config args w))))
          \<longrightarrow> (\<exists>rest. ms =
                 ''webpack-hot-middleware/client?timeout=20000&reload=true'' # rest))"
proof -
  have p: "p = MemoryWatchPromise"
    using assms by (rule memoryWatch_returns_only)
  have "promises (snd (snd (memoryWatch config args w))) MemoryWatchPromise = Some Resolved"
    using assms
    by (auto simp: memoryWatch_def Let_def case_prod_beta createWatchCompiler_def
        createCompiler_def new_promise_def emit_def split: option.splits)
  then show ?thesis
    using assms p memoryWatch_entry_heads [OF assms]
    by (simp add: effects_memoryWatch app_uses_append watch_calls_append)
qed

theorem memoryWatch_middlewares_witness:
  "promises (snd (snd (memoryWatch example_config example_args init_world))) MemoryWatchPromise
     = Some Resolved
   \<and> app_uses (effects (snd (snd (memoryWatch example_config example_args init_world)))) =
       [WebpackMiddleware (Compiler example_hot_config)
          \<lparr>logLevel = ''silent'', noInfo = True, publicPath = ''/'', dev_watchOptions = None\<rparr>,
        HotMiddleware (Compiler example_hot_config) \<lparr>heartbeat = 10000\<rparr>]
   \<and> watch_calls (effects (snd (snd (memoryWatch example_config example_args init_world)))) = []"
proof -
  have returns: "fst (memoryWatch example_config example_args init_world)
      = Inr MemoryWatchPromise"
    by (rule memoryWatch_example)
  have fields: "watchOptions example_config = None" "effects init_world = []"
    by (simp_all add: example_config_def init_world_def)
  show ?thesis
    using memoryWatch_middlewares [OF returns]
    by (simp add: memoryWatch_example fields)
qed

section \<open>The status message\<close>

text \<open>
  Claim C9. Let the port be a value whose text the model gives exactly (any value but a
  number outside the safe integers). In every file watch, on every configuration, the
  watch callback called with stats gives the logger the message
  \<^verbatim>\<open>Listening on port \<close> followed by the port when \<^verbatim>\<open>args.serve\<close> is truthy, and
  \<^verbatim>\<open>watching...\<close> otherwise. The \<^verbatim>\<open>done\<close> handler of \<open>memoryWatch\<close> gives it
  \<^verbatim>\<open>Listening on port \<close>, the port and three dots, and whenever \<open>memoryWatch\<close>
  returns, that is the one call of the logger a \<^verbatim>\<open>done\<close> event makes. The two serving
  messages are never the same string.
\<close>

theorem status_messages:
  assumes "template_exact (arg_port args)"
  shows "logger_calls (effects (deliver (WatchCallback err (Some s))
             (snd (fileWatch config args w))))
       = logger_calls (effects w) @
         [(ToJson s, config,
           Some (if truthy (arg_serve args)
                 then ''Listening on port '' @ to_string (arg_port args)
                 else ''watching...''))]
     \<and> logger_calls (effects (memoryWatch_done config args s w))
       = logger_calls (effects w) @
         [(ToJson s, config,
           Some (''Listening on port '' @ to_string (arg_port args) @ ''...''))]
     \<and> (\<forall>p. fst (memoryWatch config args (started es)) = Inr p \<longrightarrow>
          logger_calls (effects (deliver (Done s)
             (snd (snd (memoryWatch config args (started es))))))
          = logger_calls es @
            [(ToJson s, fst (snd (memoryWatch config args (started es))),
              Some (''Listening on port '' @ to_string (arg_port args) @ ''...''))])
     \<and> ''Listening on port '' @ to_string (arg_port args)
       \<noteq> ''Listening on port '' @ to_string (arg_port args) @ ''...''"
proof -
  have a: "logger_calls (effects (deliver (WatchCallback err (Some s))
             (snd (fileWatch config args w))))
       = logger_calls (effects w) @
         [(ToJson s, config,
           Some (if truthy (arg_serve args)
                 then ''Listening on port '' @ to_string (arg_port args)
                 else ''watching...''))]"
    by (simp add: logger_calls_flush watch_callback_fileWatch logger_calls_fileWatch_callback
        effects_fileWatch logger_calls_append)
  have body: "logger_calls (effects (memoryWatch_done config args s w))
       = logger_calls (effects w) @
         [(ToJson s, config,
           Some (''Listening on port '' @ to_string (arg_port args) @ ''...''))]"
    by (simp add: memoryWatch_done_def logger_calls_append)
  have b: "logger_calls (effects (deliver (Done s)
             (snd (snd (memoryWatch config args (started es))))))
       = logger_calls es @
         [(ToJson s, fst (snd (memoryWatch config args (started es))),
           Some (''Listening on port '' @ to_string (arg_port args) @ ''...''))]"
    if returns: "fst (memoryWatch config args (started es)) = Inr p" for p
    using done_hooks_memoryWatch [OF returns]
      logger_calls_memoryWatch [of config args "started es"]
    by (simp add: logger_calls_flush createWatchCompiler_done_def memoryWatch_done_def
        logger_calls_append started_def init_world_def)
  show ?thesis
    using a body b by simp
qed

theorem status_messages_witness:
  "logger_calls (effects (deliver (WatchCallback None (Some (Stats ''ok'')))
       (snd (fileWatch example_config example_args init_world))))
     = [(ToJson (Stats ''ok''), example_config, Some ''Listening on port 9999'')]
   \<and> logger_calls (effects (deliver (WatchCallback None (Some (Stats ''ok'')))
       (snd (fileWatch example_config (example_args\<lparr>arg_serve := JUndefined\<rparr>) init_world))))
     = [(ToJson (Stats ''ok''), example_config, Some ''watching...'')]
   \<and> logger_calls (effects (deliver (WatchCallback None (Some (Stats ''ok'')))
       (snd (fileWatch (example_config\<lparr>plugins := None\<rparr>) example_args init_world))))
     = [(ToJson (Stats ''ok''), example_config\<lparr>plugins := None\<rparr>,
         Some ''Listening on port 9999'')]
   \<and> logger_calls (effects (deliver (Done (Stats ''ok''))
       (snd (snd (memoryWatch example_config example_args (started []))))))
     = [(ToJson (Stats ''ok''), example_hot_config, Some ''Listening on port 9999...'')]"
proof -
  have returns: "fst (memoryWatch example_config example_args (started []))
      = Inr MemoryWatchPromise"
    by (rule memoryWatch_example)
  have exact: "template_exact (arg_port example_args)"
    "template_exact (arg_port (example_args\<lparr>arg_serve := JUndefined\<rparr>))"
    by (simp_all add: example_args_def)
  have fields: "effects init_world = []" "arg_port example_args = JNum 9999"
    "truthy (arg_serve example_args)"
    by (simp_all add: example_args_def init_world_def)
  show ?thesis
    using status_messages [OF exact(1), where err = None and s = "Stats ''ok''"
        and w = init_world and config = example_config and es = "[]"]
      status_messages [OF exact(2), where err = None and s = "Stats ''ok''"
        and w = init_world and config = example_config and es = "[]"]
      status_messages [OF exact(1), where err = None and s = "Stats ''ok''"
        and w = init_world and config = "example_config\<lparr>plugins := None\<rparr>" and es = "[]"]
      returns
    by (simp add: memoryWatch_example fields show_int_port)
qed

section \<open>Memory watch without dev mode\<close>

text \<open>
  Claim C5. Let \<^verbatim>\<open>args.watch\<close> be \<^verbatim>\<open>'memory'\<close> and \<^verbatim>\<open>args.mode\<close> be anything but
  \<^verbatim>\<open>'dev'\<close>. Then the run warns exactly once (with the message of \<open>serve\<close> when
  \<^verbatim>\<open>args.serve\<close> is truthy, with the message of \<^verbatim>\<open>command.run\<close> otherwise), starts
  exactly one file watch, on the configuration the factory returned, and adds no
  middleware to any application. The configuration object is, after the run and all
  its callbacks, the one the factory returned: its entry points and its plugin list are
  unchanged.
\<close>

theorem memory_without_dev_falls_back:
  assumes "arg_watch args = JStr ''memory''" and "arg_mode args \<noteq> JStr ''dev''"
  shows
    "let rc = (case helper of Some r \<Rightarrow> r | None \<Rightarrow> []);
         config = (if arg_mode args = JStr ''test'' then testConfigFactory fs rc
                   else distConfigFactory fs rc);
         r = run fs cwd helper args init_world;
         es = effects (deliver_all events (snd (snd r)))
     in fst (snd r) = config
      \<and> entry (fst (snd r)) = entry config \<and> plugins (fst (snd r)) = plugins config
      \<and> warnings es =
          [if truthy (arg_serve args)
           then ''Memory watch requires `--mode=dev`. Using file watch instead...''
           else ''Memory watch requires the dev server. Using file watch instead...'']
      \<and> watch_calls es = [(Compiler config, watchOptions config)]
      \<and> app_uses es = []"
proof -
  define r where "r = run fs cwd helper args init_world"
  obtain xs where xs:
    "effects (deliver_all events (snd (snd r))) = effects (snd (snd r)) @ xs"
    "list_all callback_effect xs"
    using deliver_all_effects by blast
  have silent: "watch_calls xs = []" "warnings xs = []" "app_uses xs = []"
    using xs(2) callback_effects_no_start callback_effects_silent by blast+
  have cfg: "fst (snd r) =
      (if arg_mode args = JStr ''test''
       then testConfigFactory fs (case helper of Some r \<Rightarrow> r | None \<Rightarrow> [])
       else distConfigFactory fs (case helper of Some r \<Rightarrow> r | None \<Rightarrow> []))"
    unfolding r_def using assms by (simp add: config_run Let_def)
  have sync: "warnings (effects (snd (snd r))) =
          [if truthy (arg_serve args)
           then ''Memory watch requires `--mode=dev`. Using file watch instead...''
           else ''Memory watch requires the dev server. Using file watch instead...'']"
    "watch_calls (effects (snd (snd r))) =
       [(Compiler (fst (snd r)), watchOptions (fst (snd r)))]"
    "app_uses (effects (snd (snd r))) = []"
    unfolding r_def using assms
    by (simp_all add: run_def Let_def case_prod_beta effects_serve effects_fileWatch
        warnings_append watch_calls_append app_uses_append init_world_def config_serve)
  show ?thesis
    unfolding Let_def r_def [symmetric]
    using xs(1) silent sync cfg
    by (simp add: warnings_append watch_calls_append app_uses_append)
qed

theorem memory_without_dev_falls_back_witness:
  "(let r = run example_factories ''/project'' None (example_args\<lparr>arg_mode := JStr ''test''\<rparr>)
              init_world;
        es = effects (deliver_all [WatchCallback None (Some (Stats ''ok'')), ListenCallback None]
               (snd (snd r)))
    in fst (snd r) = example_config
       \<and> warnings es = [''Memory watch requires `--mode=dev`. Using file watch instead...'']
       \<and> watch_calls es = [(Compiler example_config, None)]
       \<and> app_uses es = [])
   \<and> (let r = run example_factories ''/project'' None
              (example_args\<lparr>arg_mode := JUndefined, arg_serve := JUndefined\<rparr>) init_world;
        es = effects (deliver_all [WatchCallback None (Some (Stats ''ok''))] (snd (snd r)))
    in fst (snd r) = example_config
       \<and> warnings es = [''Memory watch requires the dev server. Using file watch instead...'']
       \<and> watch_calls es = [(Compiler example_config, None)]
       \<and> app_uses es = [])"
proof -
  have a: "arg_watch (example_args\<lparr>arg_mode := JStr ''test''\<rparr>) = JStr ''memory''"
    "arg_mode (example_args\<lparr>arg_mode := JStr ''test''\<rparr>) \<noteq> JStr ''dev''"
    by (simp_all add: example_args_def)
  have b: "arg_watch (example_args\<lparr>arg_mode := JUndefined, arg_serve := JUndefined\<rparr>)
      = JStr ''memory''"
    "arg_mode (example_args\<lparr>arg_mode := JUndefined, arg_serve := JUndefined\<rparr>) \<noteq> JStr ''dev''"
    by (simp_all add: example_args_def)
  have fields: "truthy (arg_serve example_args)" "watchOptions example_config = None"
    by (simp_all add: example_args_def example_config_def)
  show ?thesis
    using memory_without_dev_falls_back [OF a, where fs = example_factories
        and cwd = "''/project''" and helper = None
        and events = "[WatchCallback None (Some (Stats ''ok'')), ListenCallback None]"]
      memory_without_dev_falls_back [OF b, where fs = example_factories
        and cwd = "''/project''" and helper = None
        and events = "[WatchCallback None (Some (Stats ''ok''))]"]
    by (simp add: Let_def example_factories_def fields)
qed

section \<open>The handlers of the server\<close>

text \<open>
  Claim C10. The middlewares that \<open>serve\<close> and the callbacks after it add to the
  application are: the static handler of the output directory alone when \<^verbatim>\<open>args.watch\<close>
  is not \<^verbatim>\<open>'memory'\<close>; the two middlewares of \<open>memoryWatch\<close> when it is \<^verbatim>\<open>'memory'\<close>
  with \<^verbatim>\<open>args.mode\<close> \<^verbatim>\<open>'dev'\<close> (none when \<open>memoryWatch\<close> throws); none at all when it
  is \<^verbatim>\<open>'memory'\<close> with another mode. So the static handler is mounted if and only if
  \<^verbatim>\<open>args.watch\<close> is not \<^verbatim>\<open>'memory'\<close>, and the fallback to the file watch serves
  with no handler.
\<close>

theorem serve_static_handler:
  "let attached =
         (if arg_watch args \<noteq> JStr ''memory'' then
            [Static (outputDir cwd config)]
          else if arg_mode args = JStr ''dev'' then
            (case fst (memoryWatch config args w) of
               Inl e \<Rightarrow> []
             | Inr p \<Rightarrow>
                 [WebpackMiddleware (Compiler (fst (snd (memoryWatch config args w))))
                    \<lparr>logLevel = ''silent'', noInfo = True, publicPath = ''/'',
                     dev_watchOptions = watchOptions config\<rparr>,
                  HotMiddleware (Compiler (fst (snd (memoryWatch config args w))))
                    \<lparr>heartbeat = 10000\<rparr>])
          else [])
   in app_uses (effects (deliver_all events (snd (snd (serve cwd config args w)))))
        = app_uses (effects w) @ attached
      \<and> ((\<exists>dir. Static dir \<in> set attached) \<longleftrightarrow> arg_watch args \<noteq> JStr ''memory'')
      \<and> (arg_watch args = JStr ''memory'' \<and> arg_mode args \<noteq> JStr ''dev'' \<longrightarrow> attached = [])"
proof -
  obtain xs where xs:
    "effects (deliver_all events (snd (snd (serve cwd config args w))))
       = effects (snd (snd (serve cwd config args w))) @ xs"
    "list_all callback_effect xs"
    using deliver_all_effects by blast
  have "app_uses xs = []"
    using xs(2) callback_effects_silent by blast
  then have "app_uses (effects (deliver_all events (snd (snd (serve cwd config args w)))))
      = app_uses (effects (snd (snd (serve cwd config args w))))"
    using xs(1) by (simp add: app_uses_append)
  then have a: "app_uses (effects (deliver_all events (snd (snd (serve cwd config args w)))))
        = app_uses (effects w) @
         (if arg_watch args \<noteq> JStr ''memory'' then
            [Static (outputDir cwd config)]
          else if arg_mode args = JStr ''dev'' then
            (case fst (memoryWatch config args w) of
               Inl e \<Rightarrow> []
             | Inr p \<Rightarrow>
                 [WebpackMiddleware (Compiler (fst (snd (memoryWatch config args w))))
                    \<lparr>logLevel = ''silent'', noInfo = True, publicPath = ''/'',
                     dev_watchOptions = watchOptions config\<rparr>,
                  HotMiddleware (Compiler (fst (snd (memoryWatch config args w))))
                    \<lparr>heartbeat = 10000\<rparr>])
          else [])"
    by (simp only: app_uses_serve)
  show ?thesis
    unfolding Let_def
  proof (intro conjI)
    show "(\<exists>dir. Static dir \<in> set
         (if arg_watch args \<noteq> JStr ''memory'' then
            [Static (outputDir cwd config)]
          else if arg_mode args = JStr ''dev'' then
            (case fst (memoryWatch config args w) of
               Inl e \<Rightarrow> []
             | Inr p \<Rightarrow>
                 [WebpackMiddleware (Compiler (fst (snd (memoryWatch config args w))))
                    \<lparr>logLevel = ''silent'', noInfo = True, publicPath = ''/'',
                     dev_watchOptions = watchOptions config\<rparr>,
                  HotMiddleware (Compiler (fst (snd (memoryWatch config args w))))
                    \<lparr>heartbeat = 10000\<rparr>])
          else [])) \<longleftrightarrow> arg_watch args \<noteq> JStr ''memory''"
    proof (cases "arg_watch args = JStr ''memory''")
      case True
      show ?thesis
      proof (cases "arg_mode args = JStr ''dev''")
        case dev: True
        show ?thesis
          by (cases "fst (memoryWatch config args w)") (simp_all add: True dev)
      next
        case False
        then show ?thesis by (simp add: True)
      qed
    next
      case False
      then show ?thesis by simp
    qed
  qed (simp_all add: a)
qed

theorem serve_static_handler_witness:
  "app_uses (effects (deliver_all [WatchCallback None (Some (Stats ''ok'')), ListenCallback None]
       (snd (snd (serve ''/project'' example_config (example_args\<lparr>arg_mode := JStr ''test''\<rparr>)
          init_world))))) = []
   \<and> app_uses (effects (deliver_all [WatchCallback None (Some (Stats ''ok'')), ListenCallback None]
       (snd (snd (serve ''/project'' example_config (example_args\<lparr>arg_watch := JStr ''file''\<rparr>)
          init_world))))) = [Static ''/project/output'']
   \<and> app_uses (effects (deliver_all [ListenCallback None]
       (snd (snd (serve ''/project'' example_config example_args init_world))))) =
       [WebpackMiddleware (Compiler example_hot_config)
          \<lparr>logLevel = ''silent'', noInfo = True, publicPath = ''/'', dev_watchOptions = None\<rparr>,
        HotMiddleware (Compiler example_hot_config) \<lparr>heartbeat = 10000\<rparr>]"
proof -
  have fields: "arg_watch example_args = JStr ''memory''" "arg_mode example_args = JStr ''dev''"
    "watchOptions example_config = None" "effects init_world = []"
    by (simp_all add: example_args_def example_config_def init_world_def)
  show ?thesis
    using serve_static_handler [where cwd = "''/project''" and config = example_config
        and args = "example_args\<lparr>arg_mode := JStr ''test''\<rparr>" and w = init_world
        and events = "[WatchCallback None (Some (Stats ''ok'')), ListenCallback None]"]
      serve_static_handler [where cwd = "''/project''" and config = example_config
        and args = "example_args\<lparr>arg_watch := JStr ''file''\<rparr>" and w = init_world
        and events = "[WatchCallback None (Some (Stats ''ok'')), ListenCallback None]"]
      serve_static_handler [where cwd = "''/project''" and config = example_config
        and args = example_args and w = init_world and events = "[ListenCallback None]"]
    by (simp add: Let_def fields memoryWatch_example outputDir_example)
qed

section \<open>The promise of the file watch\<close>

text \<open>
  Claim C6, as the code has it. The promise of \<open>fileWatch\<close> is pending until the
  callback given to \<^verbatim>\<open>compiler.watch\<close> is called for the first time (the hooks of the
  compiler may run before). That first call settles it: rejected with the error when
  the call reports one, resolved otherwise. No later callback of any kind changes the
  settled promise, so a later error does not surface through it. A later call of the
  watch callback calls the logger exactly when it carries stats, with these stats, the
  configuration and the status message: the error it reports is passed to nobody.
\<close>

theorem fileWatch_settles_once:
  assumes "\<forall>err stats. WatchCallback err stats \<notin> set before"
  shows
    "let w0 = deliver_all before (snd (fileWatch config args w));
         w1 = deliver (WatchCallback err stats) w0;
         w2 = deliver_all events w1;
         w3 = deliver (WatchCallback err' stats') w2
     in promises w0 FileWatchPromise = Some Pending
      \<and> promises w1 FileWatchPromise
          = Some (case err of Some e \<Rightarrow> Rejected e | None \<Rightarrow> Resolved)
      \<and> promises w2 FileWatchPromise = promises w1 FileWatchPromise
      \<and> promises w3 FileWatchPromise = promises w1 FileWatchPromise
      \<and> logger_calls (effects w3) = logger_calls (effects w2) @
          (case stats' of
             None \<Rightarrow> []
           | Some s \<Rightarrow>
               [(ToJson s, config,
                 Some (if truthy (arg_serve args)
                       then ''Listening on port '' @ to_string (arg_port args)
                       else ''watching...''))])"
proof -
  define w0 where "w0 = deliver_all before (snd (fileWatch config args w))"
  define w1 where "w1 = deliver (WatchCallback err stats) w0"
  define w2 where "w2 = deliver_all events w1"
  define w3 where "w3 = deliver (WatchCallback err' stats') w2"
  have cb0: "watch_callback w0 = Some (config, args)"
    unfolding w0_def by (simp add: watch_callback_deliver_all watch_callback_fileWatch)
  have cb2: "watch_callback w2 = Some (config, args)"
    unfolding w2_def w1_def
    by (simp only: watch_callback_deliver_all watch_callback_deliver cb0)
  have p0: "promises w0 FileWatchPromise = Some Pending"
    unfolding w0_def using assms
    by (simp add: watch_promise_other_events promises_fileWatch)
  have p1: "promises w1 FileWatchPromise
      = Some (case err of Some e \<Rightarrow> Rejected e | None \<Rightarrow> Resolved)"
    unfolding w1_def
    by (simp add: cb0 flush_promises_other watch_promise_first_callback [OF p0])
  have settled: "(case err of Some e \<Rightarrow> Rejected e | None \<Rightarrow> Resolved) \<noteq> Pending"
    by (simp split: option.splits)
  have p2: "promises w2 FileWatchPromise
      = Some (case err of Some e \<Rightarrow> Rejected e | None \<Rightarrow> Resolved)"
    unfolding w2_def by (rule settled_deliver_all [OF p1 settled]) simp
  have p3: "promises w3 FileWatchPromise
      = Some (case err of Some e \<Rightarrow> Rejected e | None \<Rightarrow> Resolved)"
    unfolding w3_def by (rule settled_deliver [OF p2 settled]) simp
  have l3: "logger_calls (effects w3) = logger_calls (effects w2) @
          (case stats' of
             None \<Rightarrow> []
           | Some s \<Rightarrow>
               [(ToJson s, config,
                 Some (if truthy (arg_serve args)
                       then ''Listening on port '' @ to_string (arg_port args)
                       else ''watching...''))])"
    unfolding w3_def
    by (simp add: cb2 logger_calls_flush logger_calls_fileWatch_callback)
  show ?thesis
    unfolding Let_def w0_def [symmetric] w1_def [symmetric] w2_def [symmetric]
      w3_def [symmetric]
    using p0 p1 p2 p3 l3 by simp
qed

theorem fileWatch_settles_once_witness:
  "let w0 = deliver_all [Done (Stats ''first'')]
              (snd (fileWatch example_config example_args init_world));
       w1 = deliver (WatchCallback None (Some (Stats ''first''))) w0;
       w2 = deliver_all [Invalid, Done (Stats ''second'')] w1;
       w3 = deliver (WatchCallback (Some (Error ''late'')) (Some (Stats ''second''))) w2
   in promises w0 FileWatchPromise = Some Pending
    \<and> promises w1 FileWatchPromise = Some Resolved
    \<and> promises w2 FileWatchPromise = Some Resolved
    \<and> promises w3 FileWatchPromise = Some Resolved
    \<and> logger_calls (effects w3) = logger_calls (effects w2) @
        [(ToJson (Stats ''second''), example_config, Some ''Listening on port 9999'')]"
proof -
  have hooks_only: "\<forall>err stats. WatchCallback err stats \<notin> set [Done (Stats ''first'')]"
    by simp
  have fields: "truthy (arg_serve example_args)" "arg_port example_args = JNum 9999"
    by (simp_all add: example_args_def)
  show ?thesis
    using fileWatch_settles_once [OF hooks_only, where config = example_config
        and args = example_args and w = init_world and err = None
        and stats = "Some (Stats ''first'')" and events = "[Invalid, Done (Stats ''second'')]"
        and err' = "Some (Error ''late'')" and stats' = "Some (Stats ''second'')"]
    unfolding Let_def
    by (simp add: fields show_int_port)
qed

text \<open>
  The claim as the specification states it says that errors reported by later callbacks
  are logged. Here the watch callback is called with stats, then with an error and no
  stats: the second call leaves the promise resolved, and makes no call at all. The one
  call of the logger is that of the first callback.
\<close>

theorem later_watch_error_not_logged:
  "promises (deliver (WatchCallback (Some (Error ''boom'')) None)
       (deliver (WatchCallback None (Some (Stats ''first'')))
          (snd (fileWatch example_config example_args init_world)))) FileWatchPromise
     = Some Resolved
   \<and> effects (deliver (WatchCallback (Some (Error ''boom'')) None)
       (deliver (WatchCallback None (Some (Stats ''first'')))
          (snd (fileWatch example_config example_args init_world))))
     = effects (deliver (WatchCallback None (Some (Stats ''first'')))
          (snd (fileWatch example_config example_args init_world)))
   \<and> logger_calls (effects (deliver (WatchCallback (Some (Error ''boom'')) None)
       (deliver (WatchCallback None (Some (Stats ''first'')))
          (snd (fileWatch example_config example_args init_world)))))
     = [(ToJson (Stats ''first''), example_config, Some ''Listening on port 9999'')]"
  by (simp add: fileWatch_def createWatchCompiler_def createCompiler_def new_promise_def
      emit_def logger_def resolve_def reject_def fileWatch_callback_def flush_def Let_def
      init_world_def example_args_def show_int_port)

section \<open>The promise of serve\<close>

text \<open>
  Claim C7. Let \<open>serve\<close> have called \<^verbatim>\<open>app.listen\<close>, and let the callback given to it be
  called for the first time. Until then the promise that \<open>serve\<close> returned is pending.
  The call settles it: rejected with the error when the callback reports one, resolved
  when it reports none. Whatever is called afterwards, the promise keeps that state.
\<close>

theorem serve_listen_settles:
  assumes "\<forall>e. ListenCallback e \<notin> set events"
      and "listen_callback (deliver_all events (snd (snd (serve cwd config args (started es)))))"
  shows
    "let w1 = deliver_all events (snd (snd (serve cwd config args (started es))));
         w2 = deliver (ListenCallback error) w1
     in fst (serve cwd config args (started es)) = ServePromise
      \<and> promises w1 ServePromise = Some Pending
      \<and> promises w2 ServePromise
          = Some (case error of Some e \<Rightarrow> Rejected e | None \<Rightarrow> Resolved)
      \<and> promises (deliver_all later w2) ServePromise = promises w2 ServePromise"
proof -
  define w1 where "w1 = deliver_all events (snd (snd (serve cwd config args (started es))))"
  define w2 where "w2 = deliver (ListenCallback error) w1"
  have inv: "before_listening w1"
    unfolding w1_def using before_listening_serve assms(1) by (rule before_listening_deliver_all)
  have registered: "listen_callback w1"
    unfolding w1_def by (rule assms(2))
  have p1: "promises w1 ServePromise = Some Pending"
    using inv registered by (auto simp: before_listening_def split: pending_then.splits)
  have p2: "promises w2 ServePromise
      = Some (case error of Some e \<Rightarrow> Rejected e | None \<Rightarrow> Resolved)"
    unfolding w2_def using inv registered by (rule listen_callback_settles)
  have settled: "(case error of Some e \<Rightarrow> Rejected e | None \<Rightarrow> Resolved) \<noteq> Pending"
    by (simp split: option.splits)
  have p3: "promises (deliver_all later w2) ServePromise
      = Some (case error of Some e \<Rightarrow> Rejected e | None \<Rightarrow> Resolved)"
    by (rule settled_deliver_all [OF p2 settled]) simp
  have ret: "fst (serve cwd config args (started es)) = ServePromise"
    by (simp add: serve_def Let_def case_prod_beta)
  show ?thesis
    unfolding Let_def w1_def [symmetric] w2_def [symmetric]
    using ret p1 p2 p3 by simp
qed

theorem serve_listen_settles_witness:
  "(let w1 = deliver_all []
               (snd (snd (serve ''/project'' example_config
                  (example_args\<lparr>arg_watch := JUndefined\<rparr>) (started []))));
        w2 = deliver (ListenCallback (Some (Error ''EADDRINUSE''))) w1
    in promises w1 ServePromise = Some Pending
       \<and> promises w2 ServePromise = Some (Rejected (Error ''EADDRINUSE''))
       \<and> promises (deliver_all [ListenCallback None] w2) ServePromise
           = Some (Rejected (Error ''EADDRINUSE'')))
   \<and> (let w1 = deliver_all [Done (Stats ''ok''), WatchCallback None (Some (Stats ''ok''))]
               (snd (snd (serve ''/project'' example_config
                  (example_args\<lparr>arg_watch := JStr ''file''\<rparr>) (started []))));
        w2 = deliver (ListenCallback None) w1
    in promises w1 ServePromise = Some Pending
       \<and> promises w2 ServePromise = Some Resolved
       \<and> promises (deliver_all [WatchCallback (Some (Error ''late'')) None] w2) ServePromise
           = Some Resolved)"
proof -
  have none: "\<forall>e. ListenCallback e \<notin> set []"
    by simp
  have hooks: "\<forall>e. ListenCallback e \<notin>
      set [Done (Stats ''ok''), WatchCallback None (Some (Stats ''ok''))]"
    by simp
  have called: "listen_callback (deliver_all []
      (snd (snd (serve ''/project'' example_config
         (example_args\<lparr>arg_watch := JUndefined\<rparr>) (started [])))))"
    by (simp add: deliver_all_def serve_def serve_first_then_def serve_second_then_def
        new_promise_def emit_def example_args_def Let_def)
  have called_after_watch: "listen_callback
      (deliver_all [Done (Stats ''ok''), WatchCallback None (Some (Stats ''ok''))]
         (snd (snd (serve ''/project'' example_config
            (example_args\<lparr>arg_watch := JStr ''file''\<rparr>) (started [])))))"
    by (simp add: deliver_all_def serve_def serve_first_then_def serve_second_then_def
        fileWatch_def createWatchCompiler_def createCompiler_def fileWatch_callback_def
        createWatchCompiler_done_def flush_def new_promise_def emit_def logger_def resolve_def
        reject_def example_args_def started_def init_world_def Let_def)
  show ?thesis
    using serve_listen_settles [OF none called, where error = "Some (Error ''EADDRINUSE'')"
        and later = "[ListenCallback None]"]
      serve_listen_settles [OF hooks called_after_watch, where error = None
        and later = "[WatchCallback (Some (Error ''late'')) None]"]
    unfolding Let_def
    by simp
qed

end
